theory Spec2Isabelle
  imports Complex_Main
begin

section \<open>Strings and the regular expressions of the move extractor\<close>

text \<open>
  A JavaScript string is modelled as a \<^typ>\<open>string\<close>: one character per code unit for
  ASCII text, the UTF-8 bytes for anything else (the one non-ASCII literal of the source,
  the Chinese error phrase of \<open>errorPatterns\<close>, is written as its bytes). Letters, digits,
  white space and word boundaries are those of ASCII; on ASCII text the functions below
  compute what the JavaScript does. On other text they differ from it in two places:
  \<open>trim\<close> and \<open>\s\<close> of JavaScript also take the space characters beyond ASCII (U+00A0,
  U+2028 and the like), and \<open>.length\<close> counts UTF-16 code units where \<open>length\<close> here
  counts bytes.
\<close>

definition upper_letters :: string where
  "upper_letters = ''ABCDEFGHIJKLMNOPQRSTUVWXYZ''"

definition lower_letters :: string where
  "lower_letters = ''abcdefghijklmnopqrstuvwxyz''"

definition digit_chars :: string where
  "digit_chars = ''0123456789''"

text \<open>\<open>String.prototype.toLowerCase\<close> and the upper-casing behind the \<open>i\<close> flag.\<close>

definition to_lower :: "char \<Rightarrow> char" where
  "to_lower c = (case map_of (zip upper_letters lower_letters) c of Some d \<Rightarrow> d | None \<Rightarrow> c)"

definition to_upper :: "char \<Rightarrow> char" where
  "to_upper c = (case map_of (zip lower_letters upper_letters) c of Some d \<Rightarrow> d | None \<Rightarrow> c)"

definition toLowerCase :: "string \<Rightarrow> string" where
  "toLowerCase s = map to_lower s"

text \<open>White space (\<open>\s\<close> and \<open>trim\<close>): tab, line feed, vertical tab, form feed, carriage
  return, space.\<close>

definition is_space :: "char \<Rightarrow> bool" where
  "is_space c = (c \<in> set [CHR 0x09, CHR 0x0A, CHR 0x0B, CHR 0x0C, CHR 0x0D, CHR '' ''])"

text \<open>Word characters (\<open>\w\<close>), which decide \<open>\b\<close>.\<close>

definition is_word :: "char \<Rightarrow> bool" where
  "is_word c = (c \<in> set (upper_letters @ lower_letters @ digit_chars @ ''_''))"

definition trim :: "string \<Rightarrow> string" where
  "trim s = rev (dropWhile is_space (rev (dropWhile is_space s)))"

text \<open>\<open>s.split('\n')[0]\<close>: the text before the first line feed.\<close>

definition first_line :: "string \<Rightarrow> string" where
  "first_line s = takeWhile (\<lambda>c. c \<noteq> CHR 0x0A) s"

text \<open>\<open>xs.join(sep)\<close>.\<close>

fun join :: "string \<Rightarrow> string list \<Rightarrow> string" where
  "join sep [] = []"
| "join sep [x] = x"
| "join sep (x # y # ys) = x @ sep @ join sep (y # ys)"

text \<open>
  The regular expressions of the source use literals, character classes, sequence,
  alternation, the greedy \<open>?\<close>, \<open>\s+\<close>, \<open>\b\<close>, \<open>^\<close> and \<open>$\<close>; groups capture but do
  not change what matches.
\<close>

datatype rx =
    Lit string
  | Cls string
  | Seq rx rx
  | Alt rx rx
  | Opt rx
  | Spaces
  | Bnd
  | Bol
  | Eol

fun seqs :: "rx list \<Rightarrow> rx" where
  "seqs [] = Lit []"
| "seqs [r] = r"
| "seqs (r # rs) = Seq r (seqs rs)"

fun alts :: "rx \<Rightarrow> rx list \<Rightarrow> rx" where
  "alts r [] = r"
| "alts r (q # qs) = Alt r (alts q qs)"

text \<open>
  A matcher state is the character before the current position (none at the start of the
  text) and the text from the current position on. \<open>rxm i r st\<close> lists the states in
  which a match of \<open>r\<close> begun at \<open>st\<close> can end, in the order in which a backtracking matcher
  tries them (left alternative first, the longer match of \<open>?\<close> and \<open>+\<close> first); \<open>i\<close> is the
  \<open>i\<close> flag.
\<close>

type_synonym mstate = "char option \<times> string"

definition chr_eq :: "bool \<Rightarrow> char \<Rightarrow> char \<Rightarrow> bool" where
  "chr_eq i a c = (if i then to_upper a = to_upper c else a = c)"

fun lit_match :: "bool \<Rightarrow> string \<Rightarrow> mstate \<Rightarrow> mstate list" where
  "lit_match i [] st = [st]"
| "lit_match i (w # ws) (p, []) = []"
| "lit_match i (w # ws) (p, c # t) = (if chr_eq i w c then lit_match i ws (Some c, t) else [])"

fun spaces_match :: "mstate \<Rightarrow> mstate list" where
  "spaces_match (p, []) = []"
| "spaces_match (p, c # t) = (if is_space c then spaces_match (Some c, t) @ [(Some c, t)] else [])"

definition word_before :: "mstate \<Rightarrow> bool" where
  "word_before st = (case fst st of None \<Rightarrow> False | Some c \<Rightarrow> is_word c)"

definition word_after :: "mstate \<Rightarrow> bool" where
  "word_after st = (case snd st of [] \<Rightarrow> False | c # _ \<Rightarrow> is_word c)"

fun rxm :: "bool \<Rightarrow> rx \<Rightarrow> mstate \<Rightarrow> mstate list" where
  "rxm i (Lit w) st = lit_match i w st"
| "rxm i (Cls cs) st =
     (case snd st of [] \<Rightarrow> []
      | c # t \<Rightarrow> if list_ex (\<lambda>a. chr_eq i a c) cs then [(Some c, t)] else [])"
| "rxm i (Seq a b) st = concat (map (rxm i b) (rxm i a st))"
| "rxm i (Alt a b) st = rxm i a st @ rxm i b st"
| "rxm i (Opt a) st = rxm i a st @ [st]"
| "rxm i Spaces st = spaces_match st"
| "rxm i Bnd st = (if word_before st \<noteq> word_after st then [st] else [])"
| "rxm i Bol st = (if fst st = None then [st] else [])"
| "rxm i Eol st = (if snd st = [] then [st] else [])"

text \<open>\<open>regex.test(s)\<close>: some position of \<open>s\<close> starts a match.\<close>

fun rx_test_from :: "bool \<Rightarrow> rx \<Rightarrow> char option \<Rightarrow> string \<Rightarrow> bool" where
  "rx_test_from i r p [] = (rxm i r (p, []) \<noteq> [])"
| "rx_test_from i r p (c # t) = (rxm i r (p, c # t) \<noteq> [] \<or> rx_test_from i r (Some c) t)"

definition rx_test :: "bool \<Rightarrow> rx \<Rightarrow> string \<Rightarrow> bool" where
  "rx_test i r s = rx_test_from i r None s"

text \<open>
  \<open>s.match(new RegExp(r, 'g')) || []\<close>: the matched texts, left to right, each search
  starting where the previous match ended (one character further after an empty match).
  \<open>skip\<close> counts the characters still covered by the previous match.
\<close>

fun match_all_from :: "bool \<Rightarrow> rx \<Rightarrow> nat \<Rightarrow> char option \<Rightarrow> string \<Rightarrow> string list" where
  "match_all_from i r skip p [] =
     (if skip = 0 \<and> rxm i r (p, []) \<noteq> [] then [[]] else [])"
| "match_all_from i r skip p (c # t) =
     (if skip > 0 then match_all_from i r (skip - 1) (Some c) t
      else (case rxm i r (p, c # t) of
              [] \<Rightarrow> match_all_from i r 0 (Some c) t
            | st # _ \<Rightarrow>
                (let n = length (c # t) - length (snd st)
                 in take n (c # t) # match_all_from i r (n - 1) (Some c) t)))"

definition match_all :: "bool \<Rightarrow> rx \<Rightarrow> string \<Rightarrow> string list" where
  "match_all i r s = match_all_from i r 0 None s"

text \<open>
  \<open>s.match(r)\<close> for a pattern \<open>pre(grp)\<close> whose last capturing group ends the pattern: the
  text captured by that group in the first match, if there is a match.
\<close>

definition group_at :: "bool \<Rightarrow> rx \<Rightarrow> rx \<Rightarrow> mstate \<Rightarrow> string list" where
  "group_at i pre grp st =
     concat (map (\<lambda>st1. map (\<lambda>st2. take (length (snd st1) - length (snd st2)) (snd st1))
                              (rxm i grp st1))
                 (rxm i pre st))"

fun last_group_from :: "bool \<Rightarrow> rx \<Rightarrow> rx \<Rightarrow> char option \<Rightarrow> string \<Rightarrow> string option" where
  "last_group_from i pre grp p [] =
     (case group_at i pre grp (p, []) of [] \<Rightarrow> None | g # _ \<Rightarrow> Some g)"
| "last_group_from i pre grp p (c # t) =
     (case group_at i pre grp (p, c # t) of
        [] \<Rightarrow> last_group_from i pre grp (Some c) t
      | g # _ \<Rightarrow> Some g)"

definition last_group :: "bool \<Rightarrow> rx \<Rightarrow> rx \<Rightarrow> string \<Rightarrow> string option" where
  "last_group i pre grp s = last_group_from i pre grp None s"

section \<open>The move extractor (grok.js, \<open>extractValidChessMove\<close>)\<close>

definition files :: string where "files = ''abcdefgh''"
definition ranks :: string where "ranks = ''12345678''"
definition pieces :: string where "pieces = ''KQRBN''"

text \<open>The phrases of \<open>errorPatterns\<close>, each a literal with the \<open>i\<close> flag.\<close>

definition errorPhrases :: "string list" where
  "errorPhrases =
     [''error'', ''invalid'', ''illegal'', ''cannot'', ''not allowed'',
      [CHR 0xE8, CHR 0xAE, CHR 0xA4, CHR 0xE8, CHR 0xAF, CHR 0x81,
       CHR 0xE5, CHR 0xA4, CHR 0xB1, CHR 0xE8, CHR 0xB4, CHR 0xA5],
      ''authentication failed'', ''unauthorized'', ''api key'', ''token'']"

definition errorPatterns :: "rx list" where
  "errorPatterns = map Lit errorPhrases"

text \<open>The loop over \<open>errorPatterns\<close>: some pattern matches the trimmed response, or the
  reasoning text when there is one.\<close>

definition error_detected :: "string \<Rightarrow> string \<Rightarrow> bool" where
  "error_detected cleanedResponse reasoningText =
     list_ex (\<lambda>pattern. rx_test True pattern cleanedResponse
                \<or> (reasoningText \<noteq> [] \<and> rx_test True pattern reasoningText))
             errorPatterns"

text \<open>\<open>[KQRBN][a-h]?[1-8]?x?[a-h][1-8]\<close>, shared by several patterns.\<close>

definition piece_move :: rx where
  "piece_move = seqs [Cls pieces, Opt (Cls files), Opt (Cls ranks), Opt (Lit ''x''),
                      Cls files, Cls ranks]"

text \<open>\<open>/^[a-h][1-8]|[KQRBN][a-h]?[1-8]?x?[a-h][1-8]|O-O(-O)?$/\<close>: the anchors bind to the
  first and the last alternative only.\<close>

definition direct_rx :: rx where
  "direct_rx = alts (seqs [Bol, Cls files, Cls ranks])
                    [piece_move, seqs [Lit ''O-O'', Opt (Lit ''-O''), Eol]]"

definition check_suffix :: rx where
  "check_suffix = Opt (Cls ''+#'')"

definition moveRegexPatterns :: "rx list" where
  "moveRegexPatterns =
     [seqs [Bnd, piece_move, check_suffix, Bnd],
      seqs [Bnd, Cls files, Cls ranks, check_suffix, Bnd],
      seqs [Bnd, Cls files, Lit ''x'', Cls files, Cls ranks, check_suffix, Bnd],
      seqs [Bnd, Lit ''O-O'', Opt (Lit ''-O''), check_suffix, Bnd]]"

definition extractMovesFromText :: "string \<Rightarrow> string list" where
  "extractMovesFromText text = concat (map (\<lambda>regex. match_all False regex text) moveRegexPatterns)"

text \<open>\<open>([KQRBN]?[a-h]?[1-8]?x?[a-h][1-8]|O-O(?:-O)?)\<close>, the last group of each contextual
  pattern.\<close>

definition context_move :: rx where
  "context_move =
     Alt (seqs [Opt (Cls pieces), Opt (Cls files), Opt (Cls ranks), Opt (Lit ''x''),
                Cls files, Cls ranks])
         (Seq (Lit ''O-O'') (Opt (Lit ''-O'')))"

text \<open>The three \<open>contextPatterns\<close>, each as the part before its last group.\<close>

definition contextPatterns :: "rx list" where
  "contextPatterns =
     [seqs [Bnd,
            alts (Lit ''play'') [Lit ''move'', Lit ''choose'', Lit ''select'', Lit ''best'',
                                 Lit ''recommend'', Lit ''suggest''],
            Opt (Lit ''s''), Spaces],
      seqs [Lit ''best move '', Alt (Lit ''is'') (Lit ''would be''), Lit '' ''],
      seqs [Lit ''I'', Alt (Lit '''ll'') (Lit '' will''), Lit '' '',
            alts (Lit ''play'') [Lit ''move'', Lit ''choose'', Lit ''select''], Lit '' '']]"

definition context_moves :: "string \<Rightarrow> string list" where
  "context_moves combinedText =
     concat (map (\<lambda>pattern. case last_group True pattern context_move combinedText of
                              None \<Rightarrow> [] | Some m \<Rightarrow> if m \<noteq> [] then [m] else [])
                 contextPatterns)"

text \<open>The array \<open>potentialMoves\<close> once the direct test, the pattern scan of the response
  and of the reasoning, and the contextual scan have pushed into it.\<close>

definition potentialMoves :: "string \<Rightarrow> string \<Rightarrow> string list" where
  "potentialMoves cleanedResponse reasoningText =
     (if length cleanedResponse < 6 \<and> rx_test False direct_rx cleanedResponse
      then [cleanedResponse] else [])
     @ extractMovesFromText cleanedResponse
     @ (if reasoningText \<noteq> [] then extractMovesFromText reasoningText else [])
     @ context_moves (cleanedResponse @ '' '' @ reasoningText)"

text \<open>The filter predicate of \<open>legalPotentialMoves\<close>.\<close>

definition matches_legal :: "string list \<Rightarrow> string \<Rightarrow> bool" where
  "matches_legal legalMoves m =
     (m \<in> set legalMoves \<or> list_ex (\<lambda>legalMove. toLowerCase legalMove = toLowerCase m) legalMoves)"

text \<open>\<open>legalMoves\<close> is \<open>null\<close> (\<open>None\<close>) or an array.\<close>

definition extractValidChessMove :: "string \<Rightarrow> string \<Rightarrow> string list option \<Rightarrow> string" where
  "extractValidChessMove responseText reasoningText legalMoves =
     (if responseText = [] \<and> reasoningText = [] then []
      else
        let cleanedResponse = trim responseText in
        if error_detected cleanedResponse reasoningText then []
        else
          let pm = potentialMoves cleanedResponse reasoningText;
              legalPotentialMoves =
                (case legalMoves of
                   None \<Rightarrow> []
                 | Some ls \<Rightarrow> if ls \<noteq> [] \<and> pm \<noteq> [] then filter (matches_legal ls) pm else [])
          in
            if legalPotentialMoves \<noteq> [] then hd legalPotentialMoves
            else if pm \<noteq> [] then hd pm
            else
              let firstLine = trim (first_line cleanedResponse) in
              if length firstLine > 0 \<and> length firstLine < 10 then firstLine
              else cleanedResponse)"

text \<open>
  Case-insensitive occurrence of a phrase in a text, the reading of the error phrases as
  "case-insensitive substrings"; it is compared with the \<open>i\<close>-flagged literals of
  \<open>errorPatterns\<close> below.
\<close>

fun starts_with_ci :: "string \<Rightarrow> string \<Rightarrow> bool" where
  "starts_with_ci [] s = True"
| "starts_with_ci (w # ws) [] = False"
| "starts_with_ci (w # ws) (c # t) = (to_upper w = to_upper c \<and> starts_with_ci ws t)"

fun contains_ci :: "string \<Rightarrow> string \<Rightarrow> bool" where
  "contains_ci w [] = starts_with_ci w []"
| "contains_ci w (c # t) = (starts_with_ci w (c # t) \<or> contains_ci w t)"

text \<open>\<open>s.startsWith(w)\<close> and \<open>s.includes(w)\<close>.\<close>

fun startsWith :: "string \<Rightarrow> string \<Rightarrow> bool" where
  "startsWith s [] = True"
| "startsWith [] (w # ws) = False"
| "startsWith (c # t) (w # ws) = (c = w \<and> startsWith t ws)"

fun includes_str :: "string \<Rightarrow> string \<Rightarrow> bool" where
  "includes_str [] w = startsWith [] w"
| "includes_str (c # t) w = (startsWith (c # t) w \<or> includes_str t w)"

section \<open>Streaming (grok.js, \<open>streamGrokResponse\<close>)\<close>

record message =
  role :: string
  content :: string
  reasoning_content :: "string option"

text \<open>\<open>checkIfChessContext\<close>, on the array form of \<open>messages\<close>.\<close>

definition chessKeywords :: "string list" where
  "chessKeywords = [''chess'', ''FEN'', ''move'', ''algebraic notation'', ''board state'']"

definition checkIfChessContext :: "message list \<Rightarrow> bool" where
  "checkIfChessContext messages =
     list_ex (\<lambda>m. list_ex (\<lambda>keyword. includes_str (content m) keyword) chessKeywords) messages"

text \<open>
  One line of a decoded chunk, after the \<open>data: \<close> prefix test and \<open>JSON.parse\<close>: a line
  without the prefix, the \<open>[DONE]\<close> marker, a record that does not parse, that carries an
  \<open>error\<close>, or that has no \<open>choices[0].delta\<close> (all three are logged and skipped), or a
  delta with its \<open>content\<close> and \<open>reasoning_content\<close> (empty when absent).
\<close>

datatype sse_line =
    NotData
  | DataDone
  | DataUnparsable
  | DataError
  | DataNoDelta
  | DataDelta string string

text \<open>The argument of one \<open>onUpdate\<close> call.\<close>

record update_data =
  upd_content :: string
  upd_reasoning :: "string option"

text \<open>The state of the read loop: \<open>fullContent\<close>, \<open>fullReasoning\<close> and the \<open>onUpdate\<close>
  calls made so far, oldest first.\<close>

record stream_state =
  fullContent :: string
  fullReasoning :: string
  updates :: "update_data list"

definition mini_model :: string where
  "mini_model = ''grok-3-mini-beta''"

fun stream_line :: "string \<Rightarrow> stream_state \<Rightarrow> sse_line \<Rightarrow> stream_state" where
  "stream_line model st (DataDelta c r) =
     (let st1 = (if c \<noteq> []
                 then st\<lparr>fullContent := fullContent st @ c,
                         updates := updates st
                           @ [\<lparr>upd_content = fullContent st @ c, upd_reasoning = None\<rparr>]\<rparr>
                 else st)
      in if model = mini_model \<and> r \<noteq> []
         then st1\<lparr>fullReasoning := fullReasoning st1 @ r,
                  updates := updates st1
                    @ [\<lparr>upd_content = fullContent st1,
                        upd_reasoning = Some (fullReasoning st1 @ r)\<rparr>]\<rparr>
         else st1)"
| "stream_line model st _ = st"

definition stream_lines :: "string \<Rightarrow> stream_state \<Rightarrow> sse_line list \<Rightarrow> stream_state" where
  "stream_lines model st ls = foldl (stream_line model) st ls"

record grok_result =
  gr_response :: string
  gr_reasoning :: "string option"

text \<open>
  \<open>streamGrokResponse\<close> once the HTTP status is accepted: the \<open>onUpdate\<close> calls and the
  returned object, for the lines of the stream in arrival order. An empty \<open>apiKey\<close> throws
  before any request.
\<close>

definition stream_start :: stream_state where
  "stream_start = \<lparr>fullContent = [], fullReasoning = [], updates = []\<rparr>"

definition streamGrokResponse ::
    "string \<Rightarrow> string \<Rightarrow> message list \<Rightarrow> sse_line list \<Rightarrow> string + (update_data list \<times> grok_result)" where
  "streamGrokResponse apiKey model messages ls =
     (if apiKey = [] then Inl ''API key is required''
      else
        let st = stream_lines model stream_start ls;
            isChessContext = checkIfChessContext messages
        in if model = mini_model
           then Inr (updates st,
                     \<lparr>gr_response = (if isChessContext
                                       then extractValidChessMove (fullContent st) (fullReasoning st) None
                                       else fullContent st),
                      gr_reasoning = Some (fullReasoning st)\<rparr>)
           else Inr (updates st,
                     \<lparr>gr_response = (if isChessContext
                                       then extractValidChessMove (fullContent st) [] None
                                       else fullContent st),
                      gr_reasoning = None\<rparr>))"

text \<open>Each text of the list extends the one before it.\<close>

fun prefix_chain :: "string list \<Rightarrow> bool" where
  "prefix_chain [] = True"
| "prefix_chain [x] = True"
| "prefix_chain (x # y # ys) = (startsWith y x \<and> prefix_chain (y # ys))"

text \<open>The text of the last update, empty when there was none.\<close>

definition last_update_text :: "update_data list \<Rightarrow> string" where
  "last_update_text us = (if us = [] then [] else upd_content (last us))"

text \<open>The text fragment that a line of the stream adds.\<close>

fun delta_text :: "sse_line \<Rightarrow> string" where
  "delta_text (DataDelta c r) = c"
| "delta_text _ = []"

text \<open>What the read loop keeps true: the updates form a chain, and the accumulated text is
  the text of the last update (empty before the first update).\<close>

definition stream_inv :: "stream_state \<Rightarrow> bool" where
  "stream_inv st =
     (prefix_chain (map upd_content (updates st))
      \<and> last_update_text (updates st) = fullContent st)"

section \<open>Settings (settings.js)\<close>

text \<open>
  Numbers that hold a sampling temperature are rationals here (the source has doubles);
  counters and token budgets are integers. \<open>customPrompt\<close> is absent from the defaults
  and is written by \<open>handleInvalidMove\<close> only.
\<close>

record player_settings =
  ps_provider :: string
  ps_model :: string
  ps_apiKey :: string
  ps_streaming :: bool
  ps_temperature :: rat
  ps_maxTokens :: int
  ps_customPrompt :: "string option"

text \<open>
  The general settings object. Its defaults and the form hold \<open>maxRetries\<close> and
  \<open>moveDelay\<close>; \<open>loadSettings\<close> copies every key of the stored \<open>general\<close> object over
  the defaults, so a stored \<open>temperature\<close>, \<open>maxTokens\<close> or \<open>streaming\<close> key is a property
  of the object as well, and \<open>makeNextMove\<close> reads these three. A property that the
  object does not have is \<open>None\<close>.
\<close>

record general_settings =
  maxRetries :: int
  moveDelay :: int
  gs_temperature :: "rat option"
  gs_maxTokens :: "int option"
  gs_streaming :: "bool option"

text \<open>The \<open>general\<close> object parsed from local storage: any of the keys may be missing.\<close>

record stored_general =
  sg_maxRetries :: "int option"
  sg_moveDelay :: "int option"
  sg_temperature :: "rat option"
  sg_maxTokens :: "int option"
  sg_streaming :: "bool option"

record settings =
  white :: player_settings
  black :: player_settings
  general :: general_settings

datatype player = White | Black

definition default_player :: player_settings where
  "default_player =
     \<lparr>ps_provider = [], ps_model = [], ps_apiKey = [], ps_streaming = True,
      ps_temperature = 7 / 10, ps_maxTokens = 1024, ps_customPrompt = None\<rparr>"

definition default_general :: general_settings where
  "default_general =
     \<lparr>maxRetries = 3, moveDelay = 1000,
      gs_temperature = None, gs_maxTokens = None, gs_streaming = None\<rparr>"

definition defaults :: settings where
  "defaults = \<lparr>white = default_player, black = default_player, general = default_general\<rparr>"

text \<open>
  The \<open>general\<close> line of \<open>loadSettings\<close>,
  \<open>{ ...this.defaults.general, ...parsed.general }\<close>: the defaults when nothing is stored
  (or the stored text does not parse), the stored keys over the defaults otherwise.
\<close>

definition load_general :: "stored_general option \<Rightarrow> general_settings" where
  "load_general stored =
     (case stored of
        None \<Rightarrow> default_general
      | Some sg \<Rightarrow>
          \<lparr>maxRetries = (case sg_maxRetries sg of None \<Rightarrow> maxRetries default_general
                          | Some v \<Rightarrow> v),
           moveDelay = (case sg_moveDelay sg of None \<Rightarrow> moveDelay default_general
                         | Some v \<Rightarrow> v),
           gs_temperature = sg_temperature sg,
           gs_maxTokens = sg_maxTokens sg,
           gs_streaming = sg_streaming sg\<rparr>)"

text \<open>The general part of \<open>updateSettingsFromForm\<close>: the two form fields are written,
  the other properties stay.\<close>

definition updateGeneralFromForm :: "int \<Rightarrow> int \<Rightarrow> general_settings \<Rightarrow> general_settings" where
  "updateGeneralFromForm retries delay gs = gs\<lparr>maxRetries := retries, moveDelay := delay\<rparr>"

fun getPlayerSettings :: "settings \<Rightarrow> player \<Rightarrow> player_settings" where
  "getPlayerSettings s White = white s"
| "getPlayerSettings s Black = black s"

definition getGeneralSettings :: "settings \<Rightarrow> general_settings" where
  "getGeneralSettings s = general s"

text \<open>Assignment to the fields of the object that \<open>getPlayerSettings\<close> returned: it is the
  object held by the settings, so the settings change.\<close>

fun setPlayerSettings :: "settings \<Rightarrow> player \<Rightarrow> player_settings \<Rightarrow> settings" where
  "setPlayerSettings s White ps = s\<lparr>white := ps\<rparr>"
| "setPlayerSettings s Black ps = s\<lparr>black := ps\<rparr>"

text \<open>\<open>x || d\<close> on a number that may be undefined, and the truth value of a string that
  may be undefined.\<close>

definition or_default :: "'a::zero option \<Rightarrow> 'a \<Rightarrow> 'a" where
  "or_default x d = (case x of None \<Rightarrow> d | Some v \<Rightarrow> if v = 0 then d else v)"

definition str_or :: "string option \<Rightarrow> string \<Rightarrow> string" where
  "str_or x d = (case x of None \<Rightarrow> d | Some v \<Rightarrow> if v = [] then d else v)"

section \<open>Provider adapters (ai-models.js, o-models.js, grok.js)\<close>

text \<open>The rules engine (the chess.js object) is a parameter: position text, legal moves
  in algebraic notation, applying a move (its notation and the new position, or nothing
  when the move is refused), the 8 by 8 board of (type, colour) pieces, and game over.\<close>

record 'p rules =
  r_fen :: "'p \<Rightarrow> string"
  r_moves :: "'p \<Rightarrow> string list"
  r_move :: "'p \<Rightarrow> string \<Rightarrow> (string \<times> 'p) option"
  r_board :: "'p \<Rightarrow> (char \<times> char) option list list"
  r_game_over :: "'p \<Rightarrow> bool"

text \<open>The \<open>config\<close> object that \<open>makeNextMove\<close> passes to \<open>callAIModel\<close>.\<close>

record config =
  cfg_apiKey :: string
  cfg_model :: string
  cfg_temperature :: rat
  cfg_maxTokens :: int
  cfg_streaming :: "bool option"
  cfg_userPrompt :: "string option"
  cfg_retryCount :: int
  cfg_legalMoves :: "string list"
  cfg_customPrompt :: "string option"

text \<open>The JSON bodies. A field that \<open>JSON.stringify\<close> leaves out (absent or
  \<open>undefined\<close>) is \<open>None\<close>.\<close>

record chat_body =
  cb_model :: string
  cb_messages :: "message list"
  cb_temperature :: "rat option"
  cb_max_tokens :: "int option"
  cb_max_completion_tokens :: "int option"
  cb_stream :: "bool option"
  cb_reasoning_effort :: "string option"

record gemini_body =
  gb_contents :: "(string \<times> string) list"
  gb_temperature :: rat
  gb_maxOutputTokens :: int
  gb_safetySettings :: "(string \<times> string) list"

datatype request_body = ChatBody chat_body | GeminiBody gemini_body

record wire_request =
  wr_url :: string
  wr_headers :: "(string \<times> string) list"
  wr_body :: request_body

datatype js_error = Error string | ReferenceError string | TypeError string

definition nl2 :: string where
  "nl2 = [CHR 0x0A, CHR 0x0A]"

definition openai_endpoint :: string where
  "openai_endpoint = ''https://api.openai.com/v1/chat/completions''"

definition GROK_API_URL :: string where
  "GROK_API_URL = ''https://api.x.ai/v1/chat/completions''"

definition gemini_endpoint :: "string \<Rightarrow> string" where
  "gemini_endpoint model =
     ''https://generativelanguage.googleapis.com/v1beta/models/'' @ model @ '':generateContent''"

definition openai_system :: string where
  "openai_system = ''You are a chess engine. Your task is to analyze the current board position and make the best move possible. Respond ONLY with your chosen move in standard algebraic notation. Valid examples: 'e4', 'Nf3', 'cxd4', 'O-O', 'Qxb7+', etc. Be extremely careful to verify that your move is legal in the current position. For complex positions, consider checks, pins, and material threats carefully. For captures, explicitly use notation like 'cxd4' instead of just 'd4'.''"

definition xai_system :: string where
  "xai_system = ''You are a chess engine analyzing a position to make the best legal move. Your ONLY task is to choose and return a single valid move in standard algebraic notation (SAN). DO NOT explain your reasoning or provide any commentary. DO NOT return the string 'e4' unless the e-pawn can legally move to e4. Valid examples: 'e4', 'Nf3', 'cxd4', 'O-O', 'Qxb7+'. For captures, explicitly use notation like 'cxd4'. Only return a legal move!''"

definition gemini_system :: string where
  "gemini_system = ''You are a chess engine. Your task is to analyze the current board position and make the best move possible. Respond ONLY with your chosen move in standard algebraic notation (e.g., 'e4', 'Nf3', etc.).''"

text \<open>The default user prompt of the OpenAI, o-series and Gemini adapters.\<close>

definition default_prompt :: "string \<Rightarrow> string list \<Rightarrow> string" where
  "default_prompt fen moveHistory =
     ''Current board state (FEN): '' @ fen @ nl2 @ ''Move history: '' @ join '', '' moveHistory
     @ nl2 @ ''Provide your next move in standard algebraic notation (e.g., 'e4', 'Nf3').''"

definition xai_default_prompt :: "string \<Rightarrow> string list \<Rightarrow> string" where
  "xai_default_prompt fen moveHistory =
     ''Current board state: '' @ fen @ nl2 @ ''Move history: '' @ join '', '' moveHistory
     @ nl2 @ ''Provide your NEXT MOVE ONLY in standard algebraic notation.''"

definition bearer_headers :: "string \<Rightarrow> (string \<times> string) list" where
  "bearer_headers apiKey =
     [(''Content-Type'', ''application/json''), (''Authorization'', ''Bearer '' @ apiKey)]"

definition msg :: "string \<Rightarrow> string \<Rightarrow> message" where
  "msg r c = \<lparr>role = r, content = c, reasoning_content = None\<rparr>"

subsection \<open>o-series (o-models.js)\<close>

definition O_SERIES_MODELS :: "string list" where
  "O_SERIES_MODELS = [''o3-mini-high'', ''o4-mini'']"

definition isOSeriesModel :: "string \<Rightarrow> bool" where
  "isOSeriesModel modelId =
     (modelId \<in> set O_SERIES_MODELS \<or> startsWith modelId ''o3-'' \<or> startsWith modelId ''o4-'')"

definition generateOModelRequest :: "'p rules \<Rightarrow> 'p \<Rightarrow> string list \<Rightarrow> config \<Rightarrow> wire_request" where
  "generateOModelRequest R boardState moveHistory config =
     (let userContent = str_or (cfg_userPrompt config)
                               (default_prompt (r_fen R boardState) moveHistory)
      in \<lparr>wr_url = openai_endpoint,
          wr_headers = bearer_headers (cfg_apiKey config),
          wr_body = ChatBody
            \<lparr>cb_model = cfg_model config,
             cb_messages = [msg ''system'' openai_system, msg ''user'' userContent],
             cb_temperature = None,
             cb_max_tokens = None,
             cb_max_completion_tokens = Some (or_default (Some (cfg_maxTokens config)) 150),
             cb_stream = None,
             cb_reasoning_effort = None\<rparr>\<rparr>)"

subsection \<open>\<open>AI_MODELS.openai.requestFormat\<close>\<close>

definition openai_requestFormat :: "'p rules \<Rightarrow> 'p \<Rightarrow> string list \<Rightarrow> config \<Rightarrow> wire_request" where
  "openai_requestFormat R boardState moveHistory config =
     (let reasoning_model = (startsWith (cfg_model config) ''o4-''
                             \<or> startsWith (cfg_model config) ''o3-'')
      in \<lparr>wr_url = openai_endpoint,
          wr_headers = bearer_headers (cfg_apiKey config),
          wr_body = ChatBody
            \<lparr>cb_model = cfg_model config,
             cb_messages =
               [msg ''system'' openai_system,
                msg ''user'' (str_or (cfg_userPrompt config)
                                    (default_prompt (r_fen R boardState) moveHistory))],
             cb_temperature = (if reasoning_model then None else Some (cfg_temperature config)),
             cb_max_tokens = (if reasoning_model then None else Some (cfg_maxTokens config)),
             cb_max_completion_tokens =
               (if reasoning_model then Some (cfg_maxTokens config) else None),
             cb_stream = cfg_streaming config,
             cb_reasoning_effort = None\<rparr>\<rparr>)"

subsection \<open>\<open>AI_MODELS.gemini.requestFormat\<close>\<close>

definition gemini_safetySettings :: "(string \<times> string) list" where
  "gemini_safetySettings =
     [(''HARM_CATEGORY_HARASSMENT'', ''BLOCK_NONE''),
      (''HARM_CATEGORY_HATE_SPEECH'', ''BLOCK_NONE''),
      (''HARM_CATEGORY_SEXUALLY_EXPLICIT'', ''BLOCK_NONE''),
      (''HARM_CATEGORY_DANGEROUS_CONTENT'', ''BLOCK_NONE'')]"

definition gemini_requestFormat :: "'p rules \<Rightarrow> 'p \<Rightarrow> string list \<Rightarrow> config \<Rightarrow> wire_request" where
  "gemini_requestFormat R boardState moveHistory config =
     \<lparr>wr_url = gemini_endpoint (cfg_model config) @ ''?key='' @ cfg_apiKey config,
      wr_headers = [(''Content-Type'', ''application/json'')],
      wr_body = GeminiBody
        \<lparr>gb_contents =
           [(''system'', gemini_system),
            (''user'', default_prompt (r_fen R boardState) moveHistory)],
         gb_temperature = cfg_temperature config,
         gb_maxOutputTokens = cfg_maxTokens config,
         gb_safetySettings = gemini_safetySettings\<rparr>\<rparr>"

subsection \<open>\<open>AI_MODELS.xai.requestFormat\<close> and the Grok module\<close>

text \<open>The \<open>options\<close> object; \<open>top_p\<close> and the penalties that \<open>callAIModel\<close> adds for
  streaming are never read by the Grok module and are left out.\<close>

record grok_options =
  go_temperature :: "rat option"
  go_max_tokens :: "int option"
  go_reasoning_effort :: "string option"

record xai_request_data =
  xd_messages :: "message list"
  xd_options :: grok_options
  xd_streaming :: "bool option"

text \<open>
  With \<open>config.retryCount > 0\<close> the function evaluates \<open>cleanOptions.max_tokens\<close>;
  \<open>cleanOptions\<close> is declared nowhere, so the evaluation throws a \<open>ReferenceError\<close>.
\<close>

definition xai_requestFormat ::
    "'p rules \<Rightarrow> 'p \<Rightarrow> string list \<Rightarrow> config \<Rightarrow> js_error + xai_request_data" where
  "xai_requestFormat R boardState moveHistory config =
     (let userPrompt = (case cfg_customPrompt config of
                          Some cp \<Rightarrow> if cp \<noteq> [] then cp
                                     else xai_default_prompt (r_fen R boardState) moveHistory
                        | None \<Rightarrow> xai_default_prompt (r_fen R boardState) moveHistory);
          messages = [msg ''system'' xai_system, msg ''user'' userPrompt]
      in if cfg_retryCount config > 0
         then Inl (ReferenceError ''cleanOptions is not defined'')
         else
           let messages' =
                 (if cfg_model config = mini_model \<and> cfg_retryCount config = 0
                  then [msg ''system'' xai_system,
                        \<lparr>role = ''assistant'', content = ''e4'',
                         reasoning_content =
                           Some ''Looking at this position, I have several options.''\<rparr>,
                        msg ''user'' userPrompt]
                  else messages)
           in Inr \<lparr>xd_messages = messages',
                   xd_options =
                     \<lparr>go_temperature = Some (or_default (Some (cfg_temperature config)) (7 / 10)),
                      go_max_tokens =
                        Some (if cfg_retryCount config > 0 then 1024
                              else or_default (Some (cfg_maxTokens config)) 2048),
                      go_reasoning_effort =
                        (if cfg_model config = mini_model
                         then Some (if cfg_retryCount config > 0 then ''medium'' else ''high'')
                         else None)\<rparr>,
                   xd_streaming = cfg_streaming config\<rparr>)"

text \<open>The request body that \<open>sendGrokRequest\<close> and \<open>streamGrokResponse\<close> build.\<close>

definition cleanedMessages :: "string \<Rightarrow> message list \<Rightarrow> message list" where
  "cleanedMessages model messages =
     map (\<lambda>m. \<lparr>role = role m, content = content m,
               reasoning_content =
                 (if model = mini_model \<and> role m = ''assistant''
                     \<and> reasoning_content m \<noteq> None \<and> reasoning_content m \<noteq> Some []
                  then reasoning_content m else None)\<rparr>) messages"

definition grok_body :: "string \<Rightarrow> message list \<Rightarrow> grok_options \<Rightarrow> bool \<Rightarrow> chat_body" where
  "grok_body model messages options stream =
     \<lparr>cb_model = model,
      cb_messages = cleanedMessages model messages,
      cb_temperature = go_temperature options,
      cb_max_tokens = go_max_tokens options,
      cb_max_completion_tokens = None,
      cb_stream = Some stream,
      cb_reasoning_effort =
        (if model = mini_model then Some (str_or (go_reasoning_effort options) ''high'')
         else None)\<rparr>"

definition grok_request :: "string \<Rightarrow> string \<Rightarrow> message list \<Rightarrow> grok_options \<Rightarrow> bool \<Rightarrow> wire_request" where
  "grok_request apiKey model messages options stream =
     \<lparr>wr_url = GROK_API_URL, wr_headers = bearer_headers apiKey,
      wr_body = ChatBody (grok_body model messages options stream)\<rparr>"

text \<open>The checks of \<open>sendGrokRequest\<close> that throw before anything is sent.\<close>

definition sendGrokRequest_checks :: "string \<Rightarrow> string \<Rightarrow> message list \<Rightarrow> js_error option" where
  "sendGrokRequest_checks apiKey model messages =
     (if apiKey = [] then Some (Error ''API key is required'')
      else if model = [] \<or> (model \<noteq> mini_model \<and> model \<noteq> ''grok-3-latest'')
      then Some (Error ''Invalid model specified. Use either \"grok-3-mini-beta\" or \"grok-3-latest\"'')
      else if messages = [] then Some (Error ''At least one message is required'')
      else None)"

section \<open>The router (ai-models.js, \<open>callAIModel\<close>)\<close>

text \<open>
  What the vendor and the adapter's \<open>parseResponse\<close> make of one request is an input of
  the model: the transport or the parser rejects with an error message, or a reply
  arrives from which the parser draws the move of \<open>aiResponse.move\<close>.
\<close>

datatype attempt_outcome = Rejects string | Resolves string

definition settle :: "attempt_outcome \<Rightarrow> js_error + string" where
  "settle outcome = (case outcome of Rejects m \<Rightarrow> Inl (Error m) | Resolves mv \<Rightarrow> Inr mv)"

text \<open>
  The non-streaming branch of \<open>AI_MODELS.xai.parseResponse\<close> calls
  \<open>window.GrokModels.extractValidChessMove\<close>. The Grok module puts only
  \<open>sendGrokRequest\<close> and \<open>streamGrokResponse\<close> on that namespace, so the call throws a
  \<open>TypeError\<close>: a reply that arrives on this branch never becomes a move.
\<close>

definition xai_settle :: "attempt_outcome \<Rightarrow> js_error + string" where
  "xai_settle outcome =
     (case outcome of
        Rejects m \<Rightarrow> Inl (Error m)
      | Resolves mv \<Rightarrow>
          Inl (TypeError ''window.GrokModels.extractValidChessMove is not a function''))"

text \<open>
  \<open>callAIModel\<close>: the request put on the wire, if the call gets that far, and the result
  of the call. The call to \<open>requestFormat\<close> stands before the \<open>try\<close> block, so what it
  throws leaves \<open>callAIModel\<close> as it is; for xAI the non-streaming branch overrides
  \<open>max_tokens\<close> before it calls \<open>sendGrokRequest\<close>, and its parser throws on every reply
  that arrives (\<open>xai_settle\<close>), while the streaming branch takes the move that
  \<open>streamGrokResponse\<close> returns.
\<close>

definition callAIModel ::
    "'p rules \<Rightarrow> string \<Rightarrow> 'p \<Rightarrow> string list \<Rightarrow> config \<Rightarrow> attempt_outcome
       \<Rightarrow> wire_request option \<times> (js_error + string)" where
  "callAIModel R provider boardState moveHistory config outcome =
     (if provider \<noteq> ''openai'' \<and> provider \<noteq> ''xai'' \<and> provider \<noteq> ''gemini''
      then (None, Inl (Error (''Unknown provider: '' @ provider)))
      else if provider = ''openai'' \<and> isOSeriesModel (cfg_model config)
      then (Some (generateOModelRequest R boardState moveHistory config), settle outcome)
      else if provider = ''openai''
      then (Some (openai_requestFormat R boardState moveHistory config), settle outcome)
      else if provider = ''gemini''
      then (Some (gemini_requestFormat R boardState moveHistory config), settle outcome)
      else
        (case xai_requestFormat R boardState moveHistory config of
           Inl e \<Rightarrow> (None, Inl e)
         | Inr requestData \<Rightarrow>
             if xd_streaming requestData = Some True
             then (if cfg_apiKey config = [] then (None, Inl (Error ''API key is required''))
                   else (Some (grok_request (cfg_apiKey config) (cfg_model config)
                                 (xd_messages requestData) (xd_options requestData) True),
                         settle outcome))
             else
               (let enhancedOptions = (xd_options requestData)
                      \<lparr>go_max_tokens :=
                         Some (if cfg_retryCount config > 0 then 1024
                               else or_default (go_max_tokens (xd_options requestData)) 2048)\<rparr>
                in case sendGrokRequest_checks (cfg_apiKey config) (cfg_model config)
                          (xd_messages requestData) of
                     Some e \<Rightarrow> (None, Inl e)
                   | None \<Rightarrow>
                       (Some (grok_request (cfg_apiKey config) (cfg_model config)
                                (xd_messages requestData) enhancedOptions False),
                        xai_settle outcome))))"

section \<open>The game loop (game.js)\<close>

datatype game_status = Idle | Running | Paused | Finished

text \<open>
  The fields of \<open>Game\<close> that the move loop reads and writes; the DOM elements, the
  status line and the winner bookkeeping are left out. \<open>moveHistory\<close> keeps the notation
  of each move made; \<open>moveTimer\<close> is the delay of the pending \<open>setTimeout\<close> callback
  that will call \<open>makeNextMove\<close>, if one is pending.
\<close>

record 'p game =
  chess :: 'p
  status :: game_status
  currentPlayer :: player
  moveHistory :: "string list"
  retryCount :: int
  moveTimer :: "int option"
  settings :: settings

fun other_player :: "player \<Rightarrow> player" where
  "other_player White = Black"
| "other_player Black = White"

definition getPieceName :: "char \<Rightarrow> char \<Rightarrow> string" where
  "getPieceName type color =
     (if color = CHR ''w'' then ''White'' else ''Black'') @ '' ''
     @ (if type = CHR ''p'' then ''pawn''
        else if type = CHR ''n'' then ''knight''
        else if type = CHR ''b'' then ''bishop''
        else if type = CHR ''r'' then ''rook''
        else if type = CHR ''q'' then ''queen''
        else if type = CHR ''k'' then ''king''
        else ''unknown'')"

text \<open>\<open>board[row][col]\<close>; the board of chess.js has eight rows of eight squares, so the
  guard never fails on it.\<close>

definition board_at :: "(char \<times> char) option list list \<Rightarrow> nat \<Rightarrow> nat \<Rightarrow> (char \<times> char) option" where
  "board_at b row col =
     (if row < length b \<and> col < length (b ! row) then b ! row ! col else None)"

definition describeBoardState :: "'p rules \<Rightarrow> 'p \<Rightarrow> string" where
  "describeBoardState R pos =
     join '', ''
       (concat (map (\<lambda>row. concat (map (\<lambda>col.
            case board_at (r_board R pos) row col of
              None \<Rightarrow> []
            | Some (type, color) \<Rightarrow>
                [getPieceName type color @ '' at ''
                 @ [char_of (97 + col)] @ [char_of (48 + (8 - row))]])
          [0..<8])) [0..<8]))"

text \<open>The prompt that \<open>handleInvalidMove\<close> stores in \<open>playerSettings.customPrompt\<close>.\<close>

definition enriched_prompt :: "string \<Rightarrow> string \<Rightarrow> string \<Rightarrow> string list \<Rightarrow> string" where
  "enriched_prompt currentFEN piecePositions moveString simpleLegalMoves =
     ''Current board state (FEN): '' @ currentFEN @ nl2
     @ ''Piece positions: '' @ piecePositions @ nl2
     @ ''Previous invalid move: '' @ moveString @ nl2
     @ ''Legal moves: '' @ join '', '' simpleLegalMoves @ nl2
     @ ''Please select a valid move from the list of legal moves provided.''"

definition handleInvalidMove :: "'p rules \<Rightarrow> player \<Rightarrow> string \<Rightarrow> 'p game \<Rightarrow> 'p game" where
  "handleInvalidMove R player moveString g =
     (let generalSettings = getGeneralSettings (settings g);
          playerSettings = getPlayerSettings (settings g) player;
          simpleLegalMoves = r_moves R (chess g);
          count = retryCount g + 1
      in if count \<ge> maxRetries generalSettings
         then g\<lparr>status := Paused, retryCount := 0\<rparr>
         else
           let escalated =
                 (if count > 1
                  then playerSettings
                         \<lparr>ps_temperature := min (ps_temperature playerSettings + 3 / 10) 1,
                          ps_maxTokens := min (ps_maxTokens playerSettings + 500) 4096\<rparr>
                  else playerSettings);
               currentFEN = r_fen R (chess g);
               piecePositions = describeBoardState R (chess g);
               enriched = escalated
                 \<lparr>ps_customPrompt :=
                    Some (enriched_prompt currentFEN piecePositions moveString simpleLegalMoves)\<rparr>
           in g\<lparr>retryCount := count,
                settings := setPlayerSettings (settings g) player enriched,
                moveTimer := Some 1000\<rparr>)"

text \<open>The \<open>config\<close> literal of \<open>makeNextMove\<close>.\<close>

definition move_config :: "'p rules \<Rightarrow> 'p game \<Rightarrow> config" where
  "move_config R g =
     (let playerSettings = getPlayerSettings (settings g) (currentPlayer g);
          generalSettings = getGeneralSettings (settings g)
      in \<lparr>cfg_apiKey = ps_apiKey playerSettings,
          cfg_model = ps_model playerSettings,
          cfg_temperature = or_default (gs_temperature generalSettings) (7 / 10),
          cfg_maxTokens = or_default (gs_maxTokens generalSettings) 2048,
          cfg_streaming = gs_streaming generalSettings,
          cfg_userPrompt = ps_customPrompt playerSettings,
          cfg_retryCount = retryCount g,
          cfg_legalMoves = r_moves R (chess g),
          cfg_customPrompt = None\<rparr>)"

text \<open>
  \<open>makeNextMove\<close>, given what the attempt's request comes to: the request put on the wire
  (if any) and the game afterwards. An accepted move is applied, clears the retry counter
  and schedules the next ply; a refused one goes to \<open>handleInvalidMove\<close>; an exception
  pauses the game.
\<close>

definition makeNextMove ::
    "'p rules \<Rightarrow> attempt_outcome \<Rightarrow> 'p game \<Rightarrow> wire_request option \<times> 'p game" where
  "makeNextMove R outcome g =
     (if status g \<noteq> Running then (None, g)
      else
        let player = currentPlayer g;
            playerSettings = getPlayerSettings (settings g) player;
            generalSettings = getGeneralSettings (settings g);
            (request, result) =
              callAIModel R (ps_provider playerSettings) (chess g) (moveHistory g)
                (move_config R g) outcome
        in case result of
             Inl error \<Rightarrow> (request, g\<lparr>status := Paused\<rparr>)
           | Inr moveString \<Rightarrow>
               (case r_move R (chess g) moveString of
                  Some (san, pos) \<Rightarrow>
                    (let over = r_game_over R pos
                     in (request,
                         g\<lparr>chess := pos,
                           moveHistory := moveHistory g @ [san],
                           status := (if over then Finished else status g),
                           currentPlayer := other_player player,
                           retryCount := 0,
                           moveTimer := (if over then moveTimer g
                                         else Some (or_default (Some (moveDelay generalSettings)) 1000))\<rparr>))
                | None \<Rightarrow> (request, handleInvalidMove R player moveString g)))"

text \<open>
  One ply: \<open>makeNextMove\<close> runs, and runs again each time the retry timer of
  \<open>handleInvalidMove\<close> fires, one outcome of the list per run, until a move is made, the
  game is no longer running, or the outcomes are used up. The result is the requests put
  on the wire, every game state passed through, and the last state.
\<close>

definition fire_timer :: "'p game \<Rightarrow> 'p game" where
  "fire_timer g = g\<lparr>moveTimer := None\<rparr>"

definition retry_pending :: "'p game \<Rightarrow> 'p game \<Rightarrow> bool" where
  "retry_pending g g' =
     (status g' = Running \<and> moveHistory g' = moveHistory g \<and> moveTimer g' \<noteq> None)"

fun resolve_ply ::
    "'p rules \<Rightarrow> attempt_outcome list \<Rightarrow> 'p game \<Rightarrow> wire_request list \<times> 'p game list \<times> 'p game" where
  "resolve_ply R [] g = ([], [], g)"
| "resolve_ply R (outcome # outcomes) g =
     (let (request, g') = makeNextMove R outcome (fire_timer g)
      in if retry_pending g g'
         then (let (requests, states, final) = resolve_ply R outcomes g'
               in (case request of None \<Rightarrow> requests | Some rq \<Rightarrow> rq # requests,
                   g' # states, final))
         else (case request of None \<Rightarrow> [] | Some rq \<Rightarrow> [rq], [g'], g'))"

definition ply_requests :: "'p rules \<Rightarrow> attempt_outcome list \<Rightarrow> 'p game \<Rightarrow> wire_request list" where
  "ply_requests R outcomes g = fst (resolve_ply R outcomes g)"

definition ply_states :: "'p rules \<Rightarrow> attempt_outcome list \<Rightarrow> 'p game \<Rightarrow> 'p game list" where
  "ply_states R outcomes g = fst (snd (resolve_ply R outcomes g))"

definition ply_final :: "'p rules \<Rightarrow> attempt_outcome list \<Rightarrow> 'p game \<Rightarrow> 'p game" where
  "ply_final R outcomes g = snd (snd (resolve_ply R outcomes g))"

text \<open>What a request says of sampling temperature, token budget and streaming.\<close>

definition request_temperature :: "wire_request \<Rightarrow> rat option" where
  "request_temperature rq =
     (case wr_body rq of ChatBody b \<Rightarrow> cb_temperature b | GeminiBody b \<Rightarrow> Some (gb_temperature b))"

definition request_tokens :: "wire_request \<Rightarrow> int option" where
  "request_tokens rq =
     (case wr_body rq of
        ChatBody b \<Rightarrow> (case cb_max_tokens b of Some n \<Rightarrow> Some n
                       | None \<Rightarrow> cb_max_completion_tokens b)
      | GeminiBody b \<Rightarrow> Some (gb_maxOutputTokens b))"


text \<open>The text of the user's turn in a request.\<close>

definition request_user_text :: "wire_request \<Rightarrow> string list" where
  "request_user_text rq =
     (case wr_body rq of
        ChatBody b \<Rightarrow> map content (filter (\<lambda>m. role m = ''user'') (cb_messages b))
      | GeminiBody b \<Rightarrow> map snd (filter (\<lambda>rt. fst rt = ''user'') (gb_contents b)))"

definition request_texts :: "wire_request option \<Rightarrow> string list" where
  "request_texts r = (case r of None \<Rightarrow> [] | Some rq \<Rightarrow> request_user_text rq)"


subsection \<open>A small rules engine to run the model on\<close>

text \<open>
  Positions are counted plies. White may play \<open>e4\<close> or \<open>Nf3\<close>, Black \<open>e5\<close> or \<open>Nc6\<close>;
  the board shows the two kings; the game is over after six plies.
\<close>

definition toy_board :: "(char \<times> char) option list list" where
  "toy_board =
     [replicate 4 None @ [Some (CHR ''k'', CHR ''b'')] @ replicate 3 None]
     @ replicate 6 (replicate 8 None)
     @ [replicate 4 None @ [Some (CHR ''k'', CHR ''w'')] @ replicate 3 None]"

definition toy_moves :: "nat \<Rightarrow> string list" where
  "toy_moves n = (if even n then [''e4'', ''Nf3''] else [''e5'', ''Nc6''])"

definition toy_rules :: "nat rules" where
  "toy_rules =
     \<lparr>r_fen = (\<lambda>n. ''ply '' @ [char_of (48 + n)]),
      r_moves = toy_moves,
      r_move = (\<lambda>n mv. if mv \<in> set (toy_moves n) then Some (mv, Suc n) else None),
      r_board = (\<lambda>n. toy_board),
      r_game_over = (\<lambda>n. 6 \<le> n)\<rparr>"

definition toy_player :: "string \<Rightarrow> string \<Rightarrow> player_settings" where
  "toy_player provider model =
     default_player\<lparr>ps_provider := provider, ps_model := model, ps_apiKey := ''key'',
                    ps_temperature := 1 / 2\<rparr>"

definition toy_game :: "string \<Rightarrow> string \<Rightarrow> int \<Rightarrow> nat game" where
  "toy_game provider model n =
     \<lparr>chess = 0, status = Running, currentPlayer = White, moveHistory = [],
      retryCount = 0, moveTimer = None,
      settings = \<lparr>white = toy_player provider model, black = toy_player provider model,
                  general = updateGeneralFromForm n 1000 default_general\<rparr>\<rparr>"

text \<open>A stored \<open>general\<close> object that has the three sampling keys, and the game of three
  retries whose general settings were loaded from a stored object.\<close>

definition stored_sampling :: stored_general where
  "stored_sampling =
     \<lparr>sg_maxRetries = Some 3, sg_moveDelay = Some 1000, sg_temperature = Some (1 / 5),
      sg_maxTokens = Some 512, sg_streaming = Some True\<rparr>"

definition toy_game_stored :: "string \<Rightarrow> string \<Rightarrow> stored_general \<Rightarrow> nat game" where
  "toy_game_stored provider model sg =
     (toy_game provider model 3)
       \<lparr>settings := (settings (toy_game provider model 3))\<lparr>general := load_general (Some sg)\<rparr>\<rparr>"

section \<open>Properties of the move extractor\<close>

subsection \<open>The error patterns are case-insensitive substring tests\<close>

lemma lit_match_starts: "(lit_match True w (p, s) \<noteq> []) = starts_with_ci w s"
proof (induction w arbitrary: p s)
  case Nil
  then show ?case by simp
next
  case (Cons a w)
  then show ?case by (cases s) (simp_all add: chr_eq_def)
qed

lemma rx_test_lit: "rx_test_from True (Lit w) p s = contains_ci w s"
  by (induction s arbitrary: p) (simp_all add: lit_match_starts)

lemma starts_with_split:
  "starts_with_ci w s \<Longrightarrow> \<exists>q b. s = q @ b \<and> map to_upper q = map to_upper w"
proof (induction w s rule: starts_with_ci.induct)
  case (1 s)
  then show ?case by simp
next
  case (2 w ws)
  then show ?case by simp
next
  case (3 w ws c t)
  then obtain q b where "t = q @ b" "map to_upper q = map to_upper ws" by auto
  then have "c # t = (c # q) @ b \<and> map to_upper (c # q) = map to_upper (w # ws)"
    using 3 by simp
  then show ?case by blast
qed

lemma starts_with_join:
  "map to_upper q = map to_upper w \<Longrightarrow> starts_with_ci w (q @ b)"
proof (induction w arbitrary: q)
  case Nil
  then show ?case by simp
next
  case (Cons a w)
  then show ?case by (cases q) auto
qed

lemma contains_split:
  "contains_ci w s \<Longrightarrow> \<exists>a q b. s = a @ q @ b \<and> map to_upper q = map to_upper w"
proof (induction s)
  case Nil
  then have "starts_with_ci w []" by simp
  from starts_with_split[OF this] show ?case by (metis append_Nil)
next
  case (Cons c t)
  show ?case
  proof (cases "starts_with_ci w (c # t)")
    case True
    from starts_with_split[OF this] show ?thesis by (metis append_Nil)
  next
    case False
    with Cons.prems have "contains_ci w t" by simp
    with Cons.IH obtain a q b where "t = a @ q @ b" "map to_upper q = map to_upper w" by blast
    then have "c # t = (c # a) @ q @ b" by simp
    then show ?thesis using \<open>map to_upper q = map to_upper w\<close> by blast
  qed
qed

lemma contains_join:
  "map to_upper q = map to_upper w \<Longrightarrow> contains_ci w (a @ q @ b)"
proof (induction a)
  case Nil
  then show ?case using starts_with_join[of q w b] by (cases "q @ b") auto
next
  case (Cons c a)
  then show ?case by simp
qed

lemma is_space_to_upper: "is_space (to_upper c) = is_space c"
  unfolding to_upper_def is_space_def lower_letters_def upper_letters_def
  by (simp split: option.splits)

text \<open>Trimming keeps an occurrence that neither starts nor ends with white space.\<close>

lemma trim_keeps:
  assumes "q \<noteq> []" "\<not> is_space (hd q)" "\<not> is_space (last q)"
  shows "\<exists>a' b'. trim (a @ q @ b) = a' @ q @ b'"
proof -
  have "\<exists>a'. dropWhile is_space (a @ q @ b) = a' @ q @ b"
  proof (cases "\<forall>x\<in>set a. is_space x")
    case True
    then have "dropWhile is_space (a @ q @ b) = dropWhile is_space (q @ b)"
      by (simp add: dropWhile_append)
    also have "\<dots> = q @ b" using assms by (cases q) auto
    finally show ?thesis by (metis append_Nil)
  next
    case False
    then show ?thesis by (auto simp: dropWhile_append)
  qed
  then obtain a' where a': "dropWhile is_space (a @ q @ b) = a' @ q @ b" by blast
  have "\<exists>b'. dropWhile is_space (rev b @ rev q @ rev a') = b' @ rev q @ rev a'"
  proof (cases "\<forall>x\<in>set (rev b). is_space x")
    case True
    then have "dropWhile is_space (rev b @ rev q @ rev a') = dropWhile is_space (rev q @ rev a')"
      by (simp add: dropWhile_append)
    also have "\<dots> = rev q @ rev a'" using assms by (cases "rev q") (auto simp: hd_rev)
    finally show ?thesis by (metis append_Nil)
  next
    case False
    then show ?thesis by (auto simp: dropWhile_append)
  qed
  then obtain b' where "dropWhile is_space (rev b @ rev q @ rev a') = b' @ rev q @ rev a'"
    by blast
  then have "trim (a @ q @ b) = a' @ q @ rev b'"
    by (simp add: trim_def a')
  then show ?thesis by blast
qed

lemma contains_trim:
  assumes "contains_ci w s" "w \<noteq> []" "\<not> is_space (hd w)" "\<not> is_space (last w)"
  shows "contains_ci w (trim s)"
proof -
  from contains_split[OF assms(1)] obtain a q b
    where s: "s = a @ q @ b" and q: "map to_upper q = map to_upper w" by blast
  from q assms(2) have qne: "q \<noteq> []" by auto
  have "to_upper (hd q) = to_upper (hd w)" using q qne assms(2) by (metis hd_map)
  then have h: "\<not> is_space (hd q)" using assms(3) by (metis is_space_to_upper)
  have "to_upper (last q) = to_upper (last w)" using q qne assms(2) by (metis last_map)
  then have l: "\<not> is_space (last q)" using assms(4) by (metis is_space_to_upper)
  from trim_keeps[OF qne h l] obtain a' b' where "trim (a @ q @ b) = a' @ q @ b'" by blast
  then show ?thesis using contains_join[OF q] s by simp
qed

lemma errorPhrases_shape:
  "w \<in> set errorPhrases \<Longrightarrow> w \<noteq> [] \<and> \<not> is_space (hd w) \<and> \<not> is_space (last w)"
  by (auto simp: errorPhrases_def is_space_def)

lemma error_detected_iff:
  "error_detected c r =
     (\<exists>w\<in>set errorPhrases. contains_ci w c \<or> (r \<noteq> [] \<and> contains_ci w r))"
  by (simp add: error_detected_def errorPatterns_def list_ex_iff rx_test_def rx_test_lit)

text \<open>
  Claim C3. A response whose primary text or reasoning text contains one of the error
  phrases, in any letter case, is answered with the empty candidate, whatever else the
  texts contain and whatever legal moves are supplied.
\<close>

theorem error_phrase_guard:
  assumes "phrase \<in> set errorPhrases"
      and "contains_ci phrase responseText \<or> contains_ci phrase reasoningText"
  shows "extractValidChessMove responseText reasoningText legalMoves = []"
proof (cases "responseText = [] \<and> reasoningText = []")
  case True
  then show ?thesis by (simp add: extractValidChessMove_def)
next
  case False
  from errorPhrases_shape[OF assms(1)]
  have sh: "phrase \<noteq> []" "\<not> is_space (hd phrase)" "\<not> is_space (last phrase)" by auto
  have "contains_ci phrase (trim responseText)
        \<or> (reasoningText \<noteq> [] \<and> contains_ci phrase reasoningText)"
  proof (cases "contains_ci phrase responseText")
    case True
    then show ?thesis using contains_trim sh by blast
  next
    case False
    with assms(2) have c: "contains_ci phrase reasoningText" by simp
    then have "reasoningText \<noteq> []" using sh(1) by (cases phrase) auto
    with c show ?thesis by simp
  qed
  then have "error_detected (trim responseText) reasoningText"
    using assms(1) by (auto simp: error_detected_iff)
  then show ?thesis by (simp add: extractValidChessMove_def Let_def)
qed

text \<open>The guard at work on a reply that also names a legal move, and on the reply of
  scenario C.\<close>

theorem error_phrase_guard_witness:
  "''invalid'' \<in> set errorPhrases
   \<and> contains_ci ''invalid'' ''Invalid position, so I play Nf3''
   \<and> potentialMoves ''Invalid position, so I play Nf3'' [] \<noteq> []
   \<and> extractValidChessMove ''Invalid position, so I play Nf3'' [] (Some [''Nf3'']) = []
   \<and> contains_ci ''invalid'' ''Error: invalid API key''
   \<and> extractValidChessMove ''Error: invalid API key'' [] None = []"
proof -
  have a: "''invalid'' \<in> set errorPhrases" by (simp add: errorPhrases_def)
  have b: "contains_ci ''invalid'' ''Invalid position, so I play Nf3''" by code_simp
  have c: "potentialMoves ''Invalid position, so I play Nf3'' [] \<noteq> []" by code_simp
  have d: "contains_ci ''invalid'' ''Error: invalid API key''" by code_simp
  from error_phrase_guard[OF a, of "''Invalid position, so I play Nf3''" "[]" "Some [''Nf3'']"] b
  have e: "extractValidChessMove ''Invalid position, so I play Nf3'' [] (Some [''Nf3'']) = []"
    by simp
  from error_phrase_guard[OF a, of "''Error: invalid API key''" "[]" None] d
  have f: "extractValidChessMove ''Error: invalid API key'' [] None = []"
    by simp
  from a b c d e f show ?thesis by simp
qed

subsection \<open>Legal-move filtering\<close>

lemma potentialMoves_empty: "potentialMoves [] [] = []"
  by code_simp

lemma matches_legal_lower:
  "matches_legal ls m \<Longrightarrow> \<exists>l\<in>set ls. toLowerCase l = toLowerCase m"
  by (auto simp: matches_legal_def list_ex_iff)

text \<open>
  Claim C2, as amended. When the error guard does not fire and the scan finds a candidate
  that equals a supplied legal move up to letter case, the extractor returns the first
  such candidate: a token of the scan that equals a member of the legal moves up to
  letter case. It is returned as the text has it, so it need not itself be a member.
\<close>

theorem legal_filter_first_match:
  assumes "\<not> error_detected (trim responseText) reasoningText"
      and "filter (matches_legal ls) (potentialMoves (trim responseText) reasoningText) \<noteq> []"
  shows "extractValidChessMove responseText reasoningText (Some ls)
           = hd (filter (matches_legal ls) (potentialMoves (trim responseText) reasoningText))
         \<and> extractValidChessMove responseText reasoningText (Some ls)
             \<in> set (potentialMoves (trim responseText) reasoningText)
         \<and> (\<exists>l\<in>set ls. toLowerCase l
                = toLowerCase (extractValidChessMove responseText reasoningText (Some ls)))"
proof -
  let ?pm = "potentialMoves (trim responseText) reasoningText"
  let ?f = "filter (matches_legal ls) ?pm"
  from assms(2) have pm: "?pm \<noteq> []" by auto
  have ne: "\<not> (responseText = [] \<and> reasoningText = [])"
  proof
    assume "responseText = [] \<and> reasoningText = []"
    then have "?pm = []" by (simp add: trim_def potentialMoves_empty)
    with pm show False by simp
  qed
  from assms(2) have "hd ?f \<in> set ?f" by (rule hd_in_set)
  moreover have "set ?f \<subseteq> {m \<in> set ?pm. matches_legal ls m}" by auto
  ultimately have in_pm: "hd ?f \<in> set ?pm" and ml: "matches_legal ls (hd ?f)" by blast+
  from ml have ls: "ls \<noteq> []" by (auto simp: matches_legal_def)
  have eq: "extractValidChessMove responseText reasoningText (Some ls) = hd ?f"
    using assms ne pm ls by (auto simp: extractValidChessMove_def Let_def)
  from eq in_pm matches_legal_lower[OF ml] show ?thesis by simp
qed

theorem legal_filter_first_match_witness:
  "\<not> error_detected (trim ''I think the best move is Nf3 because it develops quickly.'') []
   \<and> filter (matches_legal [''Nf3'', ''e4'', ''d4''])
        (potentialMoves (trim ''I think the best move is Nf3 because it develops quickly.'') [])
       \<noteq> []
   \<and> extractValidChessMove ''I think the best move is Nf3 because it develops quickly.'' []
        (Some [''Nf3'', ''e4'', ''d4'']) = ''Nf3''"
proof -
  let ?t = "''I think the best move is Nf3 because it develops quickly.''"
  have a: "\<not> error_detected (trim ?t) []" by code_simp
  have b: "filter (matches_legal [''Nf3'', ''e4'', ''d4'']) (potentialMoves (trim ?t) []) \<noteq> []"
    by code_simp
  have c: "hd (filter (matches_legal [''Nf3'', ''e4'', ''d4'']) (potentialMoves (trim ?t) []))
           = ''Nf3''"
    by code_simp
  from legal_filter_first_match[OF a b] c a b show ?thesis by simp
qed

text \<open>The claim as stated fails where only the letter case differs: the reply
  \<open>play nf3\<close> against the legal move \<open>Nf3\<close> yields \<open>nf3\<close>, which is not a legal move.\<close>

theorem legal_filter_counterexample:
  "\<not> error_detected (trim ''play nf3'') []
   \<and> potentialMoves (trim ''play nf3'') [] = [''nf3'']
   \<and> matches_legal [''Nf3''] ''nf3''
   \<and> extractValidChessMove ''play nf3'' [] (Some [''Nf3'']) = ''nf3''
   \<and> ''nf3'' \<notin> set [''Nf3'']"
  by code_simp

subsection \<open>The last resort\<close>

text \<open>
  Claim C8, as amended. When the error guard does not fire and the direct test, the
  pattern scan and the contextual scan find nothing, the extractor returns the trimmed
  first line of the trimmed response if that line is non-empty and shorter than 10
  characters, and the whole trimmed response otherwise.
\<close>

theorem first_line_fallback:
  assumes "\<not> error_detected (trim responseText) reasoningText"
      and "potentialMoves (trim responseText) reasoningText = []"
  shows "extractValidChessMove responseText reasoningText legalMoves =
           (let firstLine = trim (first_line (trim responseText))
            in if firstLine \<noteq> [] \<and> length firstLine < 10 then firstLine
               else trim responseText)"
proof (cases "responseText = [] \<and> reasoningText = []")
  case True
  then show ?thesis by (simp add: extractValidChessMove_def trim_def first_line_def)
next
  case False
  then show ?thesis using assms
    by (cases legalMoves) (auto simp: extractValidChessMove_def Let_def)
qed

theorem first_line_fallback_witness:
  "\<not> error_detected (trim ''I resign from this game'') []
   \<and> potentialMoves (trim ''I resign from this game'') [] = []
   \<and> extractValidChessMove ''I resign from this game'' [] None = ''I resign from this game''
   \<and> \<not> error_detected (trim '' pass '') []
   \<and> potentialMoves (trim '' pass '') [] = []
   \<and> extractValidChessMove '' pass '' [] (Some [''e4'']) = ''pass''"
proof -
  have a: "\<not> error_detected (trim ''I resign from this game'') []" by code_simp
  have b: "potentialMoves (trim ''I resign from this game'') [] = []" by code_simp
  have c: "(let firstLine = trim (first_line (trim ''I resign from this game''))
            in if firstLine \<noteq> [] \<and> length firstLine < 10 then firstLine
               else trim ''I resign from this game'') = ''I resign from this game''"
    by code_simp
  have d: "\<not> error_detected (trim '' pass '') []" by code_simp
  have e: "potentialMoves (trim '' pass '') [] = []" by code_simp
  have f: "(let firstLine = trim (first_line (trim '' pass ''))
            in if firstLine \<noteq> [] \<and> length firstLine < 10 then firstLine
               else trim '' pass '') = ''pass''"
    by code_simp
  from first_line_fallback[OF a b, of None] c
  have g: "extractValidChessMove ''I resign from this game'' [] None = ''I resign from this game''"
    by simp
  from first_line_fallback[OF d e, of "Some [''e4'']"] f
  have h: "extractValidChessMove '' pass '' [] (Some [''e4'']) = ''pass''"
    by simp
  from a b d e g h show ?thesis by simp
qed

text \<open>The claim as stated fails on a long reply without a move: the reply itself comes
  back, not the empty candidate.\<close>

theorem first_line_fallback_counterexample:
  "\<not> error_detected (trim ''I resign from this game'') []
   \<and> potentialMoves (trim ''I resign from this game'') [] = []
   \<and> \<not> length (trim (first_line (trim ''I resign from this game''))) < 10
   \<and> extractValidChessMove ''I resign from this game'' [] None \<noteq> []"
  by code_simp

section \<open>Properties of streaming\<close>

lemma startsWith_append: "startsWith (x @ c) x"
  by (induction x) simp_all

lemma prefix_chain_snoc:
  "prefix_chain xs \<Longrightarrow> (xs \<noteq> [] \<Longrightarrow> startsWith y (last xs)) \<Longrightarrow> prefix_chain (xs @ [y])"
proof (induction xs rule: prefix_chain.induct)
  case 1
  then show ?case by simp
next
  case (2 x)
  then show ?case by simp
next
  case (3 x z zs)
  then show ?case by simp
qed

lemma stream_line_inv: "stream_inv st \<Longrightarrow> stream_inv (stream_line model st l)"
proof (cases l)
  case (DataDelta c r)
  assume inv: "stream_inv st"
  let ?st1 = "if c \<noteq> []
              then st\<lparr>fullContent := fullContent st @ c,
                      updates := updates st
                        @ [\<lparr>upd_content = fullContent st @ c, upd_reasoning = None\<rparr>]\<rparr>
              else st"
  have one: "stream_inv ?st1"
  proof (cases "c = []")
    case True
    with inv show ?thesis by simp
  next
    case False
    have "prefix_chain (map upd_content (updates st) @ [fullContent st @ c])"
    proof (rule prefix_chain_snoc)
      show "prefix_chain (map upd_content (updates st))" using inv by (simp add: stream_inv_def)
    next
      assume ne: "map upd_content (updates st) \<noteq> []"
      then have "last (map upd_content (updates st)) = fullContent st"
        using inv by (simp add: stream_inv_def last_update_text_def last_map)
      then show "startsWith (fullContent st @ c) (last (map upd_content (updates st)))"
        by (simp add: startsWith_append)
    qed
    with False show ?thesis by (simp add: stream_inv_def last_update_text_def)
  qed
  have two: "stream_inv (?st1\<lparr>fullReasoning := fullReasoning ?st1 @ r,
                 updates := updates ?st1
                   @ [\<lparr>upd_content = fullContent ?st1,
                       upd_reasoning = Some (fullReasoning ?st1 @ r)\<rparr>]\<rparr>)"
  proof -
    have "prefix_chain (map upd_content (updates ?st1) @ [fullContent ?st1])"
    proof (rule prefix_chain_snoc)
      show "prefix_chain (map upd_content (updates ?st1))"
        using one by (simp add: stream_inv_def)
    next
      assume ne: "map upd_content (updates ?st1) \<noteq> []"
      then have "last (map upd_content (updates ?st1)) = fullContent ?st1"
        using one by (simp add: stream_inv_def last_update_text_def last_map)
      then show "startsWith (fullContent ?st1) (last (map upd_content (updates ?st1)))"
        using startsWith_append[of "fullContent ?st1" "[]"] by simp
    qed
    then show ?thesis by (simp add: stream_inv_def last_update_text_def)
  qed
  from one two DataDelta show ?thesis by (simp add: Let_def)
qed simp_all

lemma stream_lines_inv: "stream_inv st \<Longrightarrow> stream_inv (stream_lines model st ls)"
  unfolding stream_lines_def
  by (induction ls arbitrary: st) (simp_all add: stream_line_inv)

lemma stream_line_content:
  "fullContent (stream_line model st l) = fullContent st @ delta_text l"
  by (cases l) (simp_all add: Let_def)

lemma stream_lines_content:
  "fullContent (stream_lines model st ls) = fullContent st @ concat (map delta_text ls)"
  unfolding stream_lines_def
  by (induction ls arbitrary: st) (simp_all add: stream_line_content)

lemma stream_start_inv: "stream_inv stream_start"
  by (simp add: stream_inv_def stream_start_def last_update_text_def)

text \<open>
  Claim C6, as amended. In a streaming resolution every update carries the text
  accumulated so far, so the text of each update extends the text of the update before
  it, and the text of the last update is all the fragments of the stream in arrival
  order. The text that the resolution returns is that of the last update when the prompt
  is not a chess prompt; for a chess prompt it is the move that the extractor draws from
  the last update's text (and from the accumulated reasoning, for the reasoning model).
\<close>

theorem stream_updates_extend:
  assumes "streamGrokResponse apiKey model messages ls = Inr (us, res)"
  shows "prefix_chain (map upd_content us)
         \<and> last_update_text us = concat (map delta_text ls)
         \<and> gr_response res =
             (if checkIfChessContext messages
              then extractValidChessMove (last_update_text us)
                     (case gr_reasoning res of None \<Rightarrow> [] | Some r \<Rightarrow> r) None
              else last_update_text us)"
proof -
  let ?st = "stream_lines model stream_start ls"
  have inv: "stream_inv ?st" by (rule stream_lines_inv[OF stream_start_inv])
  have content: "fullContent ?st = concat (map delta_text ls)"
    by (simp add: stream_lines_content stream_start_def)
  from assms have key: "apiKey \<noteq> []"
    by (auto simp: streamGrokResponse_def split: if_splits)
  from assms key have us: "us = updates ?st"
    by (auto simp: streamGrokResponse_def Let_def split: if_splits)
  from inv us have chain: "prefix_chain (map upd_content us)"
    and lastu: "last_update_text us = fullContent ?st"
    by (simp_all add: stream_inv_def)
  from assms key have res: "gr_response res =
      (if checkIfChessContext messages
       then extractValidChessMove (fullContent ?st)
              (case gr_reasoning res of None \<Rightarrow> [] | Some r \<Rightarrow> r) None
       else fullContent ?st)"
    by (auto simp: streamGrokResponse_def Let_def split: if_splits)
  from chain lastu content res show ?thesis by simp
qed

text \<open>Scenario E: the fragments \<open>N\<close>, \<open>f\<close>, \<open>3\<close> give the updates \<open>N\<close>, \<open>Nf\<close>, \<open>Nf3\<close> and
  the final text \<open>Nf3\<close>.\<close>

theorem stream_updates_extend_witness:
  "streamGrokResponse ''key'' ''grok-3-latest'' [msg ''system'' xai_system]
     [DataDelta ''N'' [], NotData, DataDelta ''f'' [], DataDelta ''3'' [], DataDone]
     = Inr ([\<lparr>upd_content = ''N'', upd_reasoning = None\<rparr>,
             \<lparr>upd_content = ''Nf'', upd_reasoning = None\<rparr>,
             \<lparr>upd_content = ''Nf3'', upd_reasoning = None\<rparr>],
            \<lparr>gr_response = ''Nf3'', gr_reasoning = None\<rparr>)
   \<and> prefix_chain [''N'', ''Nf'', ''Nf3'']
   \<and> last_update_text [\<lparr>upd_content = ''N'', upd_reasoning = None\<rparr>,
             \<lparr>upd_content = ''Nf'', upd_reasoning = None\<rparr>,
             \<lparr>upd_content = ''Nf3'', upd_reasoning = None\<rparr>] = ''Nf3''"
proof -
  have run: "streamGrokResponse ''key'' ''grok-3-latest'' [msg ''system'' xai_system]
     [DataDelta ''N'' [], NotData, DataDelta ''f'' [], DataDelta ''3'' [], DataDone]
     = Inr ([\<lparr>upd_content = ''N'', upd_reasoning = None\<rparr>,
             \<lparr>upd_content = ''Nf'', upd_reasoning = None\<rparr>,
             \<lparr>upd_content = ''Nf3'', upd_reasoning = None\<rparr>],
            \<lparr>gr_response = ''Nf3'', gr_reasoning = None\<rparr>)"
    by code_simp
  from stream_updates_extend[OF run] run show ?thesis by simp
qed

text \<open>The claim as stated fails when the reply is more than the move: the last update
  reads \<open>I play Nf3\<close>, the returned text is \<open>Nf3\<close>.\<close>

theorem stream_final_text_counterexample:
  "streamGrokResponse ''key'' ''grok-3-latest'' [msg ''system'' xai_system]
     [DataDelta ''I play '' [], DataDelta ''Nf3'' [], DataDone]
     = Inr ([\<lparr>upd_content = ''I play '', upd_reasoning = None\<rparr>,
             \<lparr>upd_content = ''I play Nf3'', upd_reasoning = None\<rparr>],
            \<lparr>gr_response = ''Nf3'', gr_reasoning = None\<rparr>)
   \<and> ''Nf3'' \<noteq> ''I play Nf3''"
  by code_simp

section \<open>Properties of the retry loop\<close>

subsection \<open>One run of \<open>makeNextMove\<close>\<close>


lemma fst_makeNextMove:
  "fst (makeNextMove R outcome g) =
     (if status g \<noteq> Running then None
      else fst (callAIModel R (ps_provider (getPlayerSettings (settings g) (currentPlayer g)))
                  (chess g) (moveHistory g) (move_config R g) outcome))"
  by (auto simp: makeNextMove_def Let_def split: prod.splits sum.splits option.splits)


subsection \<open>\<open>handleInvalidMove\<close>\<close>


lemma general_setPlayerSettings [simp]: "general (setPlayerSettings s p ps) = general s"
  by (cases p) simp_all

lemma get_setPlayerSettings [simp]: "getPlayerSettings (setPlayerSettings s p ps) p = ps"
  by (cases p) simp_all

lemma handleInvalidMove_retry:
  assumes "retryCount g + 1 < maxRetries (general (settings g))"
  shows "retryCount (handleInvalidMove R p mv g) = retryCount g + 1"
    and "status (handleInvalidMove R p mv g) = status g"
    and "chess (handleInvalidMove R p mv g) = chess g"
    and "moveHistory (handleInvalidMove R p mv g) = moveHistory g"
    and "currentPlayer (handleInvalidMove R p mv g) = currentPlayer g"
    and "moveTimer (handleInvalidMove R p mv g) = Some 1000"
    and "general (settings (handleInvalidMove R p mv g)) = general (settings g)"
    and "ps_customPrompt (getPlayerSettings (settings (handleInvalidMove R p mv g)) p) =
           Some (enriched_prompt (r_fen R (chess g)) (describeBoardState R (chess g)) mv
                   (r_moves R (chess g)))"
    and "ps_provider (getPlayerSettings (settings (handleInvalidMove R p mv g)) p) =
           ps_provider (getPlayerSettings (settings g) p)"
    and "ps_model (getPlayerSettings (settings (handleInvalidMove R p mv g)) p) =
           ps_model (getPlayerSettings (settings g) p)"
    and "ps_apiKey (getPlayerSettings (settings (handleInvalidMove R p mv g)) p) =
           ps_apiKey (getPlayerSettings (settings g) p)"
  using assms by (simp_all add: handleInvalidMove_def Let_def getGeneralSettings_def)

subsection \<open>One ply\<close>

lemma fire_timer_simps [simp]:
  "retryCount (fire_timer g) = retryCount g"
  "status (fire_timer g) = status g"
  "chess (fire_timer g) = chess g"
  "moveHistory (fire_timer g) = moveHistory g"
  "currentPlayer (fire_timer g) = currentPlayer g"
  "settings (fire_timer g) = settings g"
  "moveTimer (fire_timer g) = None"
  by (simp_all add: fire_timer_def)





lemma callAIModel_fetch:
  assumes "provider = ''openai'' \<or> provider = ''gemini''"
  shows "\<exists>rq. callAIModel R provider b h cfg outcome = (Some rq, settle outcome)"
  using assms by (auto simp: callAIModel_def)




subsection \<open>The xAI adapter on a retry\<close>

lemma xai_requestFormat_retry:
  "0 < cfg_retryCount config \<Longrightarrow>
   xai_requestFormat R b h config = Inl (ReferenceError ''cleanOptions is not defined'')"
  by (simp add: xai_requestFormat_def Let_def)

text \<open>
  Claim C9. The request builder of the xAI adapter throws a \<open>ReferenceError\<close> for every
  configuration with a positive retry count, so \<open>callAIModel\<close> throws it before any
  request is on the wire; a retry of an xAI player therefore sends nothing and ends in
  the exception handler, which pauses the game, whatever the vendor would have answered.
\<close>

theorem xai_retry_throws:
  "(0 < cfg_retryCount config \<longrightarrow>
      xai_requestFormat R b h config = Inl (ReferenceError ''cleanOptions is not defined'')
      \<and> callAIModel R ''xai'' b h config outcome
          = (None, Inl (ReferenceError ''cleanOptions is not defined'')))
   \<and> (status g = Running
       \<and> ps_provider (getPlayerSettings (settings g) (currentPlayer g)) = ''xai''
       \<and> 0 < retryCount g \<longrightarrow>
      makeNextMove R outcome g = (None, g\<lparr>status := Paused\<rparr>))"
proof (intro conjI impI)
  assume "0 < cfg_retryCount config"
  then show "xai_requestFormat R b h config = Inl (ReferenceError ''cleanOptions is not defined'')"
    by (rule xai_requestFormat_retry)
next
  assume "0 < cfg_retryCount config"
  then show "callAIModel R ''xai'' b h config outcome
               = (None, Inl (ReferenceError ''cleanOptions is not defined''))"
    by (simp add: callAIModel_def xai_requestFormat_retry)
next
  assume a: "status g = Running
       \<and> ps_provider (getPlayerSettings (settings g) (currentPlayer g)) = ''xai''
       \<and> 0 < retryCount g"
  then have "0 < cfg_retryCount (move_config R g)" by (simp add: move_config_def Let_def)
  then have "callAIModel R ''xai'' (chess g) (moveHistory g) (move_config R g) outcome
               = (None, Inl (ReferenceError ''cleanOptions is not defined''))"
    by (simp add: callAIModel_def xai_requestFormat_retry)
  with a show "makeNextMove R outcome g = (None, g\<lparr>status := Paused\<rparr>)"
    by (simp add: makeNextMove_def Let_def)
qed

text \<open>An xAI player whose stored general settings switch streaming on, bound three: the
  first reply \<open>e5\<close> is refused and a retry is scheduled; the retry would be answered with
  a legal move, but nothing is sent and the game is paused.\<close>

theorem xai_retry_throws_witness:
  "status (snd (makeNextMove toy_rules (Resolves ''e5'')
                  (toy_game_stored ''xai'' ''grok-3-latest'' stored_sampling)))
     = Running
   \<and> 0 < retryCount (snd (makeNextMove toy_rules (Resolves ''e5'')
                            (toy_game_stored ''xai'' ''grok-3-latest'' stored_sampling)))
   \<and> makeNextMove toy_rules (Resolves ''e4'')
        (snd (makeNextMove toy_rules (Resolves ''e5'')
                (toy_game_stored ''xai'' ''grok-3-latest'' stored_sampling)))
      = (None, (snd (makeNextMove toy_rules (Resolves ''e5'')
                       (toy_game_stored ''xai'' ''grok-3-latest'' stored_sampling)))
                 \<lparr>status := Paused\<rparr>)
   \<and> 0 < cfg_retryCount (move_config toy_rules
            (snd (makeNextMove toy_rules (Resolves ''e5'')
                    (toy_game_stored ''xai'' ''grok-3-latest'' stored_sampling))))
   \<and> xai_requestFormat toy_rules 0 []
        (move_config toy_rules
            (snd (makeNextMove toy_rules (Resolves ''e5'')
                    (toy_game_stored ''xai'' ''grok-3-latest'' stored_sampling))))
      = Inl (ReferenceError ''cleanOptions is not defined'')"
proof -
  let ?g = "snd (makeNextMove toy_rules (Resolves ''e5'')
                   (toy_game_stored ''xai'' ''grok-3-latest'' stored_sampling))"
  have a: "status ?g = Running" by code_simp
  have b: "ps_provider (getPlayerSettings (settings ?g) (currentPlayer ?g)) = ''xai''"
    by code_simp
  have c: "0 < retryCount ?g" by code_simp
  have d: "0 < cfg_retryCount (move_config toy_rules ?g)" by code_simp
  from xai_retry_throws[where config = "move_config toy_rules ?g" and R = toy_rules
         and b = 0 and h = "[]" and outcome = "Resolves ''e4''" and g = ?g] a b c d
  show ?thesis by simp
qed

subsection \<open>What a request takes from the settings\<close>






subsection \<open>The prompt of a retry\<close>

lemma includes_str_append: "includes_str (a @ w @ b) w"
proof (induction a)
  case Nil
  show ?case using startsWith_append[of w b] by (cases "w @ b") auto
next
  case (Cons c a)
  then show ?case by simp
qed

lemma enriched_prompt_embeds:
  "includes_str (enriched_prompt fen pp mv lm) (join '', '' lm)"
  "includes_str (enriched_prompt fen pp mv lm) pp"
proof -
  have "enriched_prompt fen pp mv lm =
          (''Current board state (FEN): '' @ fen @ nl2 @ ''Piece positions: '' @ pp @ nl2
           @ ''Previous invalid move: '' @ mv @ nl2 @ ''Legal moves: '')
          @ join '', '' lm
          @ (nl2 @ ''Please select a valid move from the list of legal moves provided.'')"
    by (simp add: enriched_prompt_def)
  then show "includes_str (enriched_prompt fen pp mv lm) (join '', '' lm)"
    by (simp only: includes_str_append)
  have "enriched_prompt fen pp mv lm =
          (''Current board state (FEN): '' @ fen @ nl2 @ ''Piece positions: '')
          @ pp
          @ (nl2 @ ''Previous invalid move: '' @ mv @ nl2 @ ''Legal moves: '' @ join '', '' lm
             @ nl2 @ ''Please select a valid move from the list of legal moves provided.'')"
    by (simp add: enriched_prompt_def)
  then show "includes_str (enriched_prompt fen pp mv lm) pp"
    by (simp only: includes_str_append)
qed

lemma enriched_prompt_nonempty: "enriched_prompt fen pp mv lm \<noteq> []"
  by (simp add: enriched_prompt_def)

lemma openai_user_text:
  "cfg_userPrompt cfg = Some p \<Longrightarrow> p \<noteq> [] \<Longrightarrow>
   request_texts (fst (callAIModel R ''openai'' b h cfg outcome)) = [p]"
  by (simp add: callAIModel_def generateOModelRequest_def openai_requestFormat_def
        request_texts_def request_user_text_def str_or_def msg_def Let_def)

lemma gemini_user_text:
  "request_texts (fst (callAIModel R ''gemini'' b h cfg outcome)) = [default_prompt (r_fen R b) h]"
  by (simp add: callAIModel_def gemini_requestFormat_def request_texts_def
        request_user_text_def)

lemma refused_step:
  assumes "status g = Running" and "r_move R (chess g) mv = None"
      and "ps_provider (getPlayerSettings (settings g) (currentPlayer g)) = ''openai''
           \<or> ps_provider (getPlayerSettings (settings g) (currentPlayer g)) = ''gemini''"
  shows "snd (makeNextMove R (Resolves mv) g) = handleInvalidMove R (currentPlayer g) mv g"
proof -
  from callAIModel_fetch[OF assms(3), of R "chess g" "moveHistory g" "move_config R g"
      "Resolves mv"]
  obtain rq where
    "callAIModel R (ps_provider (getPlayerSettings (settings g) (currentPlayer g)))
       (chess g) (moveHistory g) (move_config R g) (Resolves mv) = (Some rq, Inr mv)"
    by (auto simp: settle_def)
  with assms(1,2) show ?thesis by (simp add: makeNextMove_def Let_def)
qed

text \<open>
  The prompt of a retry, adapter by adapter. When a retry is scheduled after a refused
  move, the prompt stored for the next attempt embeds the legal moves of the position,
  joined by commas, and the textual inventory of the pieces. For an OpenAI player (chat
  and o-series models alike) the next attempt's request has this prompt as its user
  message. For a Gemini player the next attempt's request has the default prompt of
  position and move history as its user message, as every Gemini request has.
\<close>

theorem retry_prompt_by_adapter:
  assumes "status g = Running"
      and "r_move R (chess g) mv = None"
      and "retryCount g + 1 < maxRetries (general (settings g))"
  shows "includes_str (enriched_prompt (r_fen R (chess g)) (describeBoardState R (chess g)) mv
                         (r_moves R (chess g)))
                      (join '', '' (r_moves R (chess g)))
       \<and> includes_str (enriched_prompt (r_fen R (chess g)) (describeBoardState R (chess g)) mv
                         (r_moves R (chess g)))
                      (describeBoardState R (chess g))
       \<and> (ps_provider (getPlayerSettings (settings g) (currentPlayer g)) = ''openai'' \<longrightarrow>
            retry_pending g (snd (makeNextMove R (Resolves mv) g))
            \<and> request_texts (fst (makeNextMove R outcome
                                    (fire_timer (snd (makeNextMove R (Resolves mv) g)))))
                = [enriched_prompt (r_fen R (chess g)) (describeBoardState R (chess g)) mv
                     (r_moves R (chess g))])
       \<and> (ps_provider (getPlayerSettings (settings g) (currentPlayer g)) = ''gemini'' \<longrightarrow>
            retry_pending g (snd (makeNextMove R (Resolves mv) g))
            \<and> request_texts (fst (makeNextMove R outcome
                                    (fire_timer (snd (makeNextMove R (Resolves mv) g)))))
                = [default_prompt (r_fen R (chess g)) (moveHistory g)])"
proof -
  let ?p = "currentPlayer g"
  let ?g' = "handleInvalidMove R ?p mv g"
  let ?prompt = "enriched_prompt (r_fen R (chess g)) (describeBoardState R (chess g)) mv
                   (r_moves R (chess g))"
  note h = handleInvalidMove_retry[OF assms(3), of R ?p mv]
  have pend: "retry_pending g ?g'" using h assms(1) by (simp add: retry_pending_def)
  have run: "status (fire_timer ?g') = Running" using h assms(1) by simp
  have up: "cfg_userPrompt (move_config R (fire_timer ?g')) = Some ?prompt"
    using h by (simp add: move_config_def Let_def)
  have next_rq: "fst (makeNextMove R outcome (fire_timer ?g')) =
      fst (callAIModel R (ps_provider (getPlayerSettings (settings g) ?p)) (chess g)
             (moveHistory g) (move_config R (fire_timer ?g')) outcome)"
    using run h by (simp add: fst_makeNextMove)
  have openai: "ps_provider (getPlayerSettings (settings g) ?p) = ''openai'' \<longrightarrow>
            retry_pending g (snd (makeNextMove R (Resolves mv) g))
            \<and> request_texts (fst (makeNextMove R outcome
                                    (fire_timer (snd (makeNextMove R (Resolves mv) g)))))
                = [?prompt]"
  proof
    assume pr: "ps_provider (getPlayerSettings (settings g) ?p) = ''openai''"
    then have s: "snd (makeNextMove R (Resolves mv) g) = ?g'"
      using refused_step[OF assms(1,2)] by simp
    show "retry_pending g (snd (makeNextMove R (Resolves mv) g))
            \<and> request_texts (fst (makeNextMove R outcome
                                    (fire_timer (snd (makeNextMove R (Resolves mv) g)))))
                = [?prompt]"
      using pend next_rq pr openai_user_text[OF up enriched_prompt_nonempty]
      by (simp add: s)
  qed
  have gemini: "ps_provider (getPlayerSettings (settings g) ?p) = ''gemini'' \<longrightarrow>
            retry_pending g (snd (makeNextMove R (Resolves mv) g))
            \<and> request_texts (fst (makeNextMove R outcome
                                    (fire_timer (snd (makeNextMove R (Resolves mv) g)))))
                = [default_prompt (r_fen R (chess g)) (moveHistory g)]"
  proof
    assume pr: "ps_provider (getPlayerSettings (settings g) ?p) = ''gemini''"
    then have s: "snd (makeNextMove R (Resolves mv) g) = ?g'"
      using refused_step[OF assms(1,2)] by simp
    show "retry_pending g (snd (makeNextMove R (Resolves mv) g))
            \<and> request_texts (fst (makeNextMove R outcome
                                    (fire_timer (snd (makeNextMove R (Resolves mv) g)))))
                = [default_prompt (r_fen R (chess g)) (moveHistory g)]"
      using pend next_rq pr gemini_user_text by (simp add: s)
  qed
  from enriched_prompt_embeds openai gemini show ?thesis by blast
qed

text \<open>An OpenAI player whose first reply \<open>e5\<close> is refused: the retry carries the legal
  moves \<open>e4, Nf3\<close> and the two kings.\<close>

theorem retry_prompt_by_adapter_witness:
  "status (toy_game ''openai'' ''gpt-4o'' 3) = Running
   \<and> r_move toy_rules (chess (toy_game ''openai'' ''gpt-4o'' 3)) ''e5'' = None
   \<and> retryCount (toy_game ''openai'' ''gpt-4o'' 3) + 1
       < maxRetries (general (settings (toy_game ''openai'' ''gpt-4o'' 3)))
   \<and> request_texts (fst (makeNextMove toy_rules (Resolves ''e4'')
        (fire_timer (snd (makeNextMove toy_rules (Resolves ''e5'')
                            (toy_game ''openai'' ''gpt-4o'' 3))))))
      = [enriched_prompt ''ply 0'' ''Black king at e8, White king at e1'' ''e5''
           [''e4'', ''Nf3'']]"
proof -
  let ?g = "toy_game ''openai'' ''gpt-4o'' 3"
  have a: "status ?g = Running" by (simp add: toy_game_def updateGeneralFromForm_def)
  have b: "r_move toy_rules (chess ?g) ''e5'' = None" by code_simp
  have c: "retryCount ?g + 1 < maxRetries (general (settings ?g))" by (simp add: toy_game_def updateGeneralFromForm_def)
  have d: "ps_provider (getPlayerSettings (settings ?g) (currentPlayer ?g)) = ''openai''"
    by (simp add: toy_game_def toy_player_def)
  have e: "r_fen toy_rules (chess ?g) = ''ply 0''" by code_simp
  have f: "describeBoardState toy_rules (chess ?g) = ''Black king at e8, White king at e1''"
    by code_simp
  have g: "r_moves toy_rules (chess ?g) = [''e4'', ''Nf3'']" by code_simp
  from retry_prompt_by_adapter[OF a b c, of "Resolves ''e4''"] d
  have "request_texts (fst (makeNextMove toy_rules (Resolves ''e4'')
          (fire_timer (snd (makeNextMove toy_rules (Resolves ''e5'') ?g)))))
        = [enriched_prompt (r_fen toy_rules (chess ?g)) (describeBoardState toy_rules (chess ?g))
             ''e5'' (r_moves toy_rules (chess ?g))]"
    by blast
  with a b c show ?thesis by (simp only: e f g)
qed

text \<open>
  Claim C7 fails on the code. A Gemini player, bound three, whose first reply \<open>e5\<close> is
  refused: a retry is scheduled, and its request has the default prompt as its user
  message, which embeds neither the legal moves \<open>e4, Nf3\<close> nor the inventory of the
  pieces. For an xAI player whose first reply is refused (which takes the streaming path,
  switched on by stored general settings) the retry puts no request on the wire.
\<close>

theorem retry_prompt_not_enriched:
  "retry_pending (toy_game ''gemini'' ''gemini-2.0-flash-exp'' 3)
     (snd (makeNextMove toy_rules (Resolves ''e5'') (toy_game ''gemini'' ''gemini-2.0-flash-exp'' 3)))
   \<and> request_texts (fst (makeNextMove toy_rules (Resolves ''e4'')
        (fire_timer (snd (makeNextMove toy_rules (Resolves ''e5'')
                            (toy_game ''gemini'' ''gemini-2.0-flash-exp'' 3))))))
      = [default_prompt ''ply 0'' []]
   \<and> join '', '' (r_moves toy_rules 0) = ''e4, Nf3''
   \<and> \<not> includes_str (default_prompt ''ply 0'' []) ''e4, Nf3''
   \<and> describeBoardState toy_rules 0 = ''Black king at e8, White king at e1''
   \<and> \<not> includes_str (default_prompt ''ply 0'' []) ''Black king at e8, White king at e1''
   \<and> retry_pending (toy_game_stored ''xai'' ''grok-3-latest'' stored_sampling)
     (snd (makeNextMove toy_rules (Resolves ''e5'')
             (toy_game_stored ''xai'' ''grok-3-latest'' stored_sampling)))
   \<and> fst (makeNextMove toy_rules (Resolves ''e4'')
        (fire_timer (snd (makeNextMove toy_rules (Resolves ''e5'')
                            (toy_game_stored ''xai'' ''grok-3-latest'' stored_sampling))))) = None"
  by code_simp

subsection \<open>Where the escalated values go\<close>

text \<open>
  Claim C4 holds of what \<open>handleInvalidMove\<close> writes, not of what is sent. An OpenAI
  player with temperature 0.5 and 1024 tokens, bound five, three refused replies and then
  a legal one: after the second and third failure the player's settings hold 0.8 and
  1524, then 1 and 2024, but all four requests carry temperature 0.7 and 2048 tokens.
\<close>

theorem escalation_not_sent:
  "map request_temperature
     (ply_requests toy_rules [Resolves ''e5'', Resolves ''zz'', Resolves ''yy'', Resolves ''e4'']
        (toy_game ''openai'' ''gpt-4o'' 5))
     = [Some (7 / 10), Some (7 / 10), Some (7 / 10), Some (7 / 10)]
   \<and> map request_tokens
     (ply_requests toy_rules [Resolves ''e5'', Resolves ''zz'', Resolves ''yy'', Resolves ''e4'']
        (toy_game ''openai'' ''gpt-4o'' 5))
     = [Some 2048, Some 2048, Some 2048, Some 2048]
   \<and> map (ps_temperature \<circ> white \<circ> settings)
     (ply_states toy_rules [Resolves ''e5'', Resolves ''zz'', Resolves ''yy'', Resolves ''e4'']
        (toy_game ''openai'' ''gpt-4o'' 5))
     = [1 / 2, 4 / 5, 1, 1]
   \<and> map (ps_maxTokens \<circ> white \<circ> settings)
     (ply_states toy_rules [Resolves ''e5'', Resolves ''zz'', Resolves ''yy'', Resolves ''e4'']
        (toy_game ''openai'' ''gpt-4o'' 5))
     = [1024, 1524, 2024, 2024]
   \<and> map retryCount
     (ply_states toy_rules [Resolves ''e5'', Resolves ''zz'', Resolves ''yy'', Resolves ''e4'']
        (toy_game ''openai'' ''gpt-4o'' 5))
     = [1, 2, 3, 0]"
  by code_simp

text \<open>
  Claim C5 fails on the code. White's replies \<open>e5\<close> and \<open>zz\<close> are refused and \<open>e4\<close> is
  accepted; Black plays \<open>e5\<close>. The accepted move clears the retry counter only: White's
  settings keep the raised temperature and token budget and the prompt written for the
  retry, and the request of White's next ply, in the position \<open>ply 2\<close>, has that prompt
  of the position \<open>ply 0\<close> as its user message.
\<close>

theorem retry_state_outlives_ply:
  "ps_temperature (white (settings (toy_game ''openai'' ''gpt-4o'' 5))) = 1 / 2
   \<and> ps_maxTokens (white (settings (toy_game ''openai'' ''gpt-4o'' 5))) = 1024
   \<and> ps_customPrompt (white (settings (toy_game ''openai'' ''gpt-4o'' 5))) = None
   \<and> moveHistory (ply_final toy_rules [Resolves ''e5'', Resolves ''zz'', Resolves ''e4'']
                     (toy_game ''openai'' ''gpt-4o'' 5)) = [''e4'']
   \<and> retryCount (ply_final toy_rules [Resolves ''e5'', Resolves ''zz'', Resolves ''e4'']
                     (toy_game ''openai'' ''gpt-4o'' 5)) = 0
   \<and> ps_temperature (white (settings
        (ply_final toy_rules [Resolves ''e5'', Resolves ''zz'', Resolves ''e4'']
           (toy_game ''openai'' ''gpt-4o'' 5)))) = 4 / 5
   \<and> ps_maxTokens (white (settings
        (ply_final toy_rules [Resolves ''e5'', Resolves ''zz'', Resolves ''e4'']
           (toy_game ''openai'' ''gpt-4o'' 5)))) = 1524
   \<and> ps_customPrompt (white (settings
        (ply_final toy_rules [Resolves ''e5'', Resolves ''zz'', Resolves ''e4'']
           (toy_game ''openai'' ''gpt-4o'' 5))))
      = Some (enriched_prompt ''ply 0'' ''Black king at e8, White king at e1'' ''zz''
                [''e4'', ''Nf3''])
   \<and> r_fen toy_rules (chess (ply_final toy_rules [Resolves ''e5'']
        (ply_final toy_rules [Resolves ''e5'', Resolves ''zz'', Resolves ''e4'']
           (toy_game ''openai'' ''gpt-4o'' 5)))) = ''ply 2''
   \<and> map request_user_text (ply_requests toy_rules [Resolves ''Nf3'']
        (ply_final toy_rules [Resolves ''e5'']
           (ply_final toy_rules [Resolves ''e5'', Resolves ''zz'', Resolves ''e4'']
              (toy_game ''openai'' ''gpt-4o'' 5))))
      = [[enriched_prompt ''ply 0'' ''Black king at e8, White king at e1'' ''zz''
            [''e4'', ''Nf3'']]]"
  by code_simp

end
